theory Spec2Isabelle
  imports Main
begin

section \<open>The servo bus as seen by the controller\<close>

text \<open>
  The controller of \<^verbatim>\<open>backend/app.py\<close> talks to the servo chain through the packet
  handler of the servo SDK. The SDK is a collaborator: the controller only compares the
  communication result of a call with \<^verbatim>\<open>COMM_SUCCESS\<close> (and returns
  \<^verbatim>\<open>COMM_TX_ERROR\<close> itself), so the result codes are a datatype of distinct constants.
  A call into the SDK either raises a Python exception or returns; what it returns is
  an input of the model, one per call site.
\<close>

datatype comm_result =
    COMM_SUCCESS | COMM_PORT_BUSY | COMM_TX_FAIL | COMM_RX_FAIL | COMM_TX_ERROR
  | COMM_RX_WAITING | COMM_RX_TIMEOUT | COMM_RX_CORRUPT | COMM_NOT_AVAILABLE

datatype 'a call = Raises | Returns 'a

datatype reg = STS_ID | STS_TORQUE_ENABLE | STS_MODE

datatype flag = Immediate_stop | Emergency_stop | Paused

text \<open>
  Everything the controller does to the outside world, in the order it does it:
  calls issued to the packet handler (recorded when issued, whatever they return),
  \<^verbatim>\<open>time.sleep\<close> with its duration in milliseconds, the pause lock, and writes of
  the three pause flags of a servo's pattern.
\<close>

datatype event =
    Ping int
  | ReadPos int
  | WritePosEx int int int int
  | WriteSpec int int int
  | Write1ByteTxRx int reg int
  | UnLockEprom int
  | LockEprom int
  | SyncWritePosEx int int int int
  | ClearParam
  | TxPacket
  | ClosePort
  | Sleep nat
  | AcquirePauseLock
  | ReleasePauseLock
  | SetFlag int flag bool

section \<open>change\_servo\_id\<close>

text \<open>
  \<^verbatim>\<open>isinstance(old_id, int)\<close>: an argument of the request is an integer or something
  else.
\<close>

datatype id_arg = IntArg int | NonInt

record change_id_env =
  ping_old :: "comm_result call"
  ping_new :: "comm_result call"
  unlock_old :: "comm_result call"
  write_id :: "comm_result call"
  lock_new :: "comm_result call"
  verify_new :: "comm_result call"

datatype id_error =
    NotConnected
  | InvalidIdFormat
  | InvalidIdRange
  | IdsMustDiffer
  | OldNotResponding int
  | IdInUse int
  | UnlockFailed comm_result
  | WriteIdFailed comm_result
  | LockFailed comm_result
  | VerificationFailed int
  | VerificationRaised
  | UnexpectedError

text \<open>
  The EEPROM part of \<^verbatim>\<open>change_servo_id\<close> (from "Unlock EEPROM" to the verification
  ping). \<open>tr\<close> is the trace so far. An exception of a call that is not inside an inner
  \<^verbatim>\<open>try\<close> reaches the outer handler ("Unexpected error during ID change"). After a
  failed write of the id the code calls \<^verbatim>\<open>LockEprom(old_id)\<close> and ignores what it
  returns or raises.
\<close>

definition change_id_eeprom ::
  "int \<Rightarrow> int \<Rightarrow> change_id_env \<Rightarrow> event list \<Rightarrow> (id_error + unit) \<times> event list" where
  "change_id_eeprom old_id new_id env tr =
     (case unlock_old env of
        Raises \<Rightarrow> (Inl UnexpectedError, tr @ [UnLockEprom old_id])
      | Returns r1 \<Rightarrow>
          if r1 \<noteq> COMM_SUCCESS then (Inl (UnlockFailed r1), tr @ [UnLockEprom old_id])
          else
            (case write_id env of
               Raises \<Rightarrow>
                 (Inl UnexpectedError,
                  tr @ [UnLockEprom old_id, Sleep 100, Write1ByteTxRx old_id STS_ID new_id])
             | Returns r2 \<Rightarrow>
                 if r2 \<noteq> COMM_SUCCESS then
                   (Inl (WriteIdFailed r2),
                    tr @ [UnLockEprom old_id, Sleep 100, Write1ByteTxRx old_id STS_ID new_id,
                          LockEprom old_id])
                 else
                   (case lock_new env of
                      Raises \<Rightarrow>
                        (Inl UnexpectedError,
                         tr @ [UnLockEprom old_id, Sleep 100,
                               Write1ByteTxRx old_id STS_ID new_id, Sleep 150,
                               LockEprom new_id])
                    | Returns r3 \<Rightarrow>
                        if r3 \<noteq> COMM_SUCCESS then
                          (Inl (LockFailed r3),
                           tr @ [UnLockEprom old_id, Sleep 100,
                                 Write1ByteTxRx old_id STS_ID new_id, Sleep 150,
                                 LockEprom new_id])
                        else
                          (case verify_new env of
                             Raises \<Rightarrow> Inl VerificationRaised
                           | Returns r4 \<Rightarrow>
                               if r4 = COMM_SUCCESS then Inr ()
                               else Inl (VerificationFailed new_id),
                           tr @ [UnLockEprom old_id, Sleep 100,
                                 Write1ByteTxRx old_id STS_ID new_id, Sleep 150,
                                 LockEprom new_id, Sleep 200, Ping new_id]))))"

definition change_servo_id ::
  "bool \<Rightarrow> id_arg \<Rightarrow> id_arg \<Rightarrow> change_id_env \<Rightarrow> (id_error + unit) \<times> event list" where
  "change_servo_id is_connected old_arg new_arg env =
     (if \<not> is_connected then (Inl NotConnected, [])
      else
        (case (old_arg, new_arg) of
           (IntArg old_id, IntArg new_id) \<Rightarrow>
             if old_id < 0 \<or> old_id > 253 \<or> new_id < 0 \<or> new_id > 253 then
               (Inl InvalidIdRange, [])
             else if old_id = new_id then (Inl IdsMustDiffer, [])
             else
               (case ping_old env of
                  Raises \<Rightarrow> (Inl UnexpectedError, [Ping old_id])
                | Returns r0 \<Rightarrow>
                    if r0 \<noteq> COMM_SUCCESS then (Inl (OldNotResponding old_id), [Ping old_id])
                    else if ping_new env = Returns COMM_SUCCESS then
                      (Inl (IdInUse new_id), [Ping old_id, Ping new_id])
                    else change_id_eeprom old_id new_id env [Ping old_id, Ping new_id])
         | _ \<Rightarrow> (Inl InvalidIdFormat, [])))"

text \<open>The events that touch the EEPROM of a servo: unlock, lock, and a register write.\<close>

fun touches_eeprom :: "event \<Rightarrow> bool" where
  "touches_eeprom (UnLockEprom _) = True"
| "touches_eeprom (LockEprom _) = True"
| "touches_eeprom (Write1ByteTxRx _ _ _) = True"
| "touches_eeprom _ = False"

section \<open>Movement patterns\<close>

text \<open>
  A movement pattern is a Python dict. Keys that every creator of a pattern sets are plain
  fields; keys that may be absent are optional fields, and \<open>get_or\<close> is
  \<^verbatim>\<open>pattern.get(key, default)\<close>. Positions, speeds and counters are Python integers.
  The wave pattern's amplitude, frequency and time reference are floating point and are
  not fields of the model: the sine term of a wave step is an input of that step.
\<close>

record pattern =
  ptype :: string
  speed :: int
  acceleration :: int
  running :: bool
  paused :: bool
  immediate_stop :: bool
  emergency_stop :: bool
  current_position :: "int option"
  constraints_enabled :: bool
  min_angle :: "int option"
  max_angle :: "int option"
  min_position :: "int option"
  max_position :: "int option"
  direction :: "int option"
  cycle_count :: "int option"
  start_position :: "int option"
  end_position :: "int option"
  center_position :: "int option"
  cycles :: "int option"

definition get_or :: "'a option \<Rightarrow> 'a \<Rightarrow> 'a" where
  "get_or v d = (case v of None \<Rightarrow> d | Some x \<Rightarrow> x)"

text \<open>
  One entry of \<^verbatim>\<open>movement_configs\<close> in a start request. \<open>cfg_cycles\<close> is the
  key \<^verbatim>\<open>"cycles"\<close> of the request: \<^verbatim>\<open>start_continuous_movement\<close> never reads it.
\<close>

record movement_config =
  cfg_servo_id :: "int option"
  cfg_type :: "string option"
  cfg_speed :: "int option"
  cfg_acceleration :: "int option"
  cfg_constraints_enabled :: bool
  cfg_min_angle :: "int option"
  cfg_max_angle :: "int option"
  cfg_min_position :: "int option"
  cfg_max_position :: "int option"
  cfg_center_position :: "int option"
  cfg_direction :: "int option"
  cfg_cycles :: "int option"

text \<open>
  The pattern that \<^verbatim>\<open>start_continuous_movement\<close> builds for one config ("Create
  movement pattern" and "Add pattern-specific parameters").
\<close>

definition create_pattern :: "movement_config \<Rightarrow> pattern" where
  "create_pattern cfg =
     (let pattern_type = get_or (cfg_type cfg) ''sweep'';
          base = \<lparr> ptype = pattern_type,
                   speed = get_or (cfg_speed cfg) 100,
                   acceleration = get_or (cfg_acceleration cfg) 50,
                   running = True,
                   paused = False,
                   immediate_stop = False,
                   emergency_stop = False,
                   current_position = Some 0,
                   constraints_enabled = cfg_constraints_enabled cfg,
                   min_angle = cfg_min_angle cfg,
                   max_angle = cfg_max_angle cfg,
                   min_position = None,
                   max_position = None,
                   direction = None,
                   cycle_count = None,
                   start_position = None,
                   end_position = None,
                   center_position = None,
                   cycles = None \<rparr>
      in if pattern_type = ''sweep'' then
           base\<lparr> min_position := Some (get_or (cfg_min_position cfg) 0),
                 max_position := Some (get_or (cfg_max_position cfg) 4095),
                 direction := Some 1 \<rparr>
         else if pattern_type = ''wave'' then
           base\<lparr> center_position := Some (get_or (cfg_center_position cfg) 2048) \<rparr>
         else if pattern_type = ''rotation'' then
           base\<lparr> direction := Some (get_or (cfg_direction cfg) 1) \<rparr>
         else base)"

text \<open>
  \<^verbatim>\<open>start_continuous_movement\<close> stores the new pattern under the servo's id and
  then, when a thread is already registered for that id, clears \<^verbatim>\<open>running\<close> of
  \<^verbatim>\<open>self.movement_patterns[servo_id]\<close>, which by then is the new pattern; the new
  worker is started on that same dict.
\<close>

definition start_pattern :: "bool \<Rightarrow> movement_config \<Rightarrow> pattern" where
  "start_pattern thread_registered cfg =
     (let p = create_pattern cfg
      in if thread_registered then p\<lparr>running := False\<rparr> else p)"

section \<open>Setpoint calculation\<close>

definition clamp_position :: "int \<Rightarrow> int" where
  "clamp_position x = max 0 (min 4095 x)"

text \<open>
  \<^verbatim>\<open>_calculate_sweep_position\<close>, "Validate inputs" and "Ensure start_pos <= end_pos":
  the validated bounds, speed and direction are locals of the call, computed from the
  pattern and never written back.
\<close>

definition sweep_bounds :: "pattern \<Rightarrow> int \<times> int" where
  "sweep_bounds p =
     (let start_pos0 = get_or (start_position p) 0;
          end_pos0 = get_or (end_position p) 4095;
          start_pos1 = (if start_pos0 < 0 \<or> start_pos0 > 4095 then 0 else start_pos0);
          end_pos1 = (if end_pos0 < 0 \<or> end_pos0 > 4095 then 4095 else end_pos0)
      in if start_pos1 > end_pos1 then (end_pos1, start_pos1) else (start_pos1, end_pos1))"

definition sweep_speed :: "pattern \<Rightarrow> int" where
  "sweep_speed p = (if speed p < 0 then 100 else speed p)"

definition sweep_direction :: "pattern \<Rightarrow> int" where
  "sweep_direction p =
     (let direction0 = get_or (direction p) 1
      in if direction0 \<noteq> 1 \<and> direction0 \<noteq> - 1 then 1 else direction0)"

text \<open>
  \<^verbatim>\<open>_calculate_sweep_position\<close>, "Determine next target position": only a reversal
  writes \<^verbatim>\<open>direction\<close> and \<^verbatim>\<open>cycle_count\<close> back to the pattern.
\<close>

definition calculate_sweep_position :: "pattern \<Rightarrow> int \<Rightarrow> int \<times> pattern" where
  "calculate_sweep_position p current_pos =
     (let start_pos = fst (sweep_bounds p);
          end_pos = snd (sweep_bounds p)
      in if sweep_direction p = 1 then
           (if current_pos \<ge> end_pos then
              (clamp_position end_pos,
               p\<lparr>direction := Some (- 1),
                 cycle_count := Some (get_or (cycle_count p) 0 + 1)\<rparr>)
            else (clamp_position (min end_pos (current_pos + sweep_speed p)), p))
         else
           (if current_pos \<le> start_pos then
              (clamp_position start_pos,
               p\<lparr>direction := Some 1,
                 cycle_count := Some (get_or (cycle_count p) 0 + 1)\<rparr>)
            else (clamp_position (max start_pos (current_pos - sweep_speed p)), p)))"

text \<open>
  \<^verbatim>\<open>_calculate_wave_position\<close>: \<open>wave_term\<close> stands for
  \<^verbatim>\<open>int(amplitude * math.sin(2 * math.pi * frequency * elapsed_time))\<close>.
\<close>

definition calculate_wave_position :: "pattern \<Rightarrow> int \<Rightarrow> int" where
  "calculate_wave_position p wave_term =
     clamp_position (get_or (center_position p) 2048 + wave_term)"

definition calculate_next_position :: "int \<Rightarrow> pattern \<Rightarrow> int \<times> pattern" where
  "calculate_next_position wave_term p =
     (let current_pos0 = get_or (current_position p) 2048;
          current_pos = (if current_pos0 < 0 \<or> current_pos0 > 4095 then 2048 else current_pos0)
      in if ptype p = ''sweep'' then calculate_sweep_position p current_pos
         else if ptype p = ''rotation'' then (current_pos, p)
         else if ptype p = ''wave'' then (calculate_wave_position p wave_term, p)
         else (current_pos, p))"

section \<open>One movement step on the bus\<close>

text \<open>
  The three step functions catch every exception of the SDK call themselves and only log
  a failed communication result: none of them raises, and none reports failure to the
  worker.
\<close>

definition execute_sweep_step ::
  "int \<Rightarrow> pattern \<Rightarrow> int \<Rightarrow> comm_result call \<Rightarrow> pattern \<times> event list" where
  "execute_sweep_step servo_id p next_position wr =
     (let next_pos = (if next_position < 0 \<or> next_position > 4095
                      then get_or (current_position p) 2048 else next_position);
          spd = max 0 (min 1023 (speed p));
          acc = max 0 (min 254 (acceleration p))
      in (if wr = Returns COMM_SUCCESS then p\<lparr>current_position := Some next_pos\<rparr> else p,
          [WritePosEx servo_id next_pos spd acc]))"

definition execute_wave_step ::
  "int \<Rightarrow> pattern \<Rightarrow> int \<Rightarrow> comm_result call \<Rightarrow> pattern \<times> event list" where
  "execute_wave_step servo_id p next_position wr =
     (let next_pos = (if next_position < 0 \<or> next_position > 4095
                      then get_or (current_position p) 2048 else next_position);
          spd = max 0 (min 1023 (speed p));
          acc = max 0 (min 254 (acceleration p))
      in (if wr = Returns COMM_SUCCESS then p\<lparr>current_position := Some next_pos\<rparr> else p,
          [WritePosEx servo_id next_pos spd acc]))"

definition execute_rotation_step ::
  "int \<Rightarrow> pattern \<Rightarrow> comm_result call \<Rightarrow> pattern \<times> event list" where
  "execute_rotation_step servo_id p wr =
     (let spd = speed p;
          effective_speed0 = (if spd < 0 then \<bar>spd\<bar> + 1024 else \<bar>spd\<bar>);
          effective_speed = max 0 (min 2047 effective_speed0);
          acc = max 0 (min 254 (acceleration p))
      in (p, [WriteSpec servo_id effective_speed acc]))"

definition execute_step ::
  "int \<Rightarrow> pattern \<Rightarrow> int \<Rightarrow> comm_result call \<Rightarrow> pattern \<times> event list" where
  "execute_step servo_id p next_position wr =
     (if ptype p = ''sweep'' then execute_sweep_step servo_id p next_position wr
      else if ptype p = ''rotation'' then execute_rotation_step servo_id p wr
      else if ptype p = ''wave'' then execute_wave_step servo_id p next_position wr
      else (p, []))"

section \<open>Recovery and the in-band health check\<close>

record recovery_env =
  rec_ping :: "comm_result call"
  rec_torque :: "comm_result call"
  rec_read :: "(int \<times> comm_result) call"

text \<open>\<^verbatim>\<open>_attempt_servo_recovery\<close>: ping, re-enable torque, read the position.\<close>

definition attempt_servo_recovery ::
  "int \<Rightarrow> recovery_env \<Rightarrow> pattern \<Rightarrow> bool \<times> pattern \<times> event list" where
  "attempt_servo_recovery servo_id renv p =
     (case rec_ping renv of
        Raises \<Rightarrow> (False, p, [Ping servo_id])
      | Returns r1 \<Rightarrow>
          if r1 \<noteq> COMM_SUCCESS then (False, p, [Ping servo_id])
          else
            (case rec_torque renv of
               Raises \<Rightarrow>
                 (False, p, [Ping servo_id, Write1ByteTxRx servo_id STS_TORQUE_ENABLE 1])
             | Returns r2 \<Rightarrow>
                 if r2 \<noteq> COMM_SUCCESS then
                   (False, p, [Ping servo_id, Write1ByteTxRx servo_id STS_TORQUE_ENABLE 1])
                 else
                   (case rec_read renv of
                      Raises \<Rightarrow>
                        (False, p,
                         [Ping servo_id, Write1ByteTxRx servo_id STS_TORQUE_ENABLE 1,
                          ReadPos servo_id])
                    | Returns (current_pos, r3) \<Rightarrow>
                        if r3 = COMM_SUCCESS then
                          (True, p\<lparr>current_position := Some current_pos\<rparr>,
                           [Ping servo_id, Write1ByteTxRx servo_id STS_TORQUE_ENABLE 1,
                            ReadPos servo_id])
                        else
                          (False, p,
                           [Ping servo_id, Write1ByteTxRx servo_id STS_TORQUE_ENABLE 1,
                            ReadPos servo_id]))))"

text \<open>
  The recovery loop of the worker's failure path (\<^verbatim>\<open>for recovery_attempt in range(3)\<close>):
  it stops at the first recovery that succeeds and sleeps 100 ms after each one that
  fails. The list holds the attempt numbers still to run.
\<close>

fun recovery_loop ::
  "int \<Rightarrow> (nat \<Rightarrow> recovery_env) \<Rightarrow> nat list \<Rightarrow> pattern \<Rightarrow> bool \<times> pattern \<times> event list" where
  "recovery_loop servo_id renv [] p = (False, p, [])"
| "recovery_loop servo_id renv (k # ks) p =
     (case attempt_servo_recovery servo_id (renv k) p of
        (ok, p', tr) \<Rightarrow>
          if ok then (True, p', tr)
          else
            (case recovery_loop servo_id renv ks p' of
               (ok', p'', tr') \<Rightarrow> (ok', p'', tr @ [Sleep 100] @ tr')))"

text \<open>
  The recovery loop of the health check (\<^verbatim>\<open>while recovery_attempts <
  max_recovery_attempts\<close>): it sleeps 100 ms between attempts, not after the last one.
\<close>

fun health_recovery_loop ::
  "int \<Rightarrow> (nat \<Rightarrow> recovery_env) \<Rightarrow> nat list \<Rightarrow> pattern \<Rightarrow> bool \<times> pattern \<times> event list" where
  "health_recovery_loop servo_id renv [] p = (False, p, [])"
| "health_recovery_loop servo_id renv (k # ks) p =
     (case attempt_servo_recovery servo_id (renv k) p of
        (ok, p', tr) \<Rightarrow>
          if ok then (True, p', tr)
          else
            (case health_recovery_loop servo_id renv ks p' of
               (ok', p'', tr') \<Rightarrow>
                 (ok', p'', tr @ (if ks = [] then [] else [Sleep 100]) @ tr')))"

text \<open>
  \<^verbatim>\<open>_check_communication_health_during_movement\<close>: the value it returns is
  \<^verbatim>\<open>True\<close> on every path.
\<close>

definition check_communication_health_during_movement ::
  "int \<Rightarrow> (int \<times> comm_result) call \<Rightarrow> (nat \<Rightarrow> recovery_env) \<Rightarrow> pattern
     \<Rightarrow> bool \<times> pattern \<times> event list" where
  "check_communication_health_during_movement servo_id rd renv p =
     (case rd of
        Raises \<Rightarrow> (True, p, [ReadPos servo_id])
      | Returns (position, r) \<Rightarrow>
          if r \<noteq> COMM_SUCCESS then
            (case health_recovery_loop servo_id renv [0, 1, 2] p of
               (ok, p', tr) \<Rightarrow>
                 if ok then (True, p', ReadPos servo_id # tr)
                 else (True, p', ReadPos servo_id # tr))
          else (True, p\<lparr>current_position := Some position\<rparr>, [ReadPos servo_id]))"

section \<open>The per-servo worker\<close>

text \<open>
  The worker's locals and the pattern it shares with the request handlers, together with
  the trace of what it has done so far.
\<close>

record wstate =
  pat :: pattern
  consecutive_failures :: nat
  step_count :: nat
  last_successful_position :: "int option"
  trace :: "event list"

text \<open>
  What one pass of the loop meets. The worker reads the stop flags of the shared pattern
  at six places (checkpoints, numbered in program order: 0 at the head of the loop, 1 the
  pause check under the pause lock, 2 before the calculation, 3 after it, 4 after the
  angle constraints, 5 before the first movement attempt). \<open>interrupt = Some k\<close> says
  that a pause request asserts its three flags just before checkpoint \<open>k\<close> of this pass;
  \<open>None\<close> says that no request interferes with this pass.
\<close>

record iter_env =
  interrupt :: "nat option"
  wave_term :: int
  step_write :: "comm_result call"
  recoveries :: "nat \<Rightarrow> recovery_env"
  health_read :: "(int \<times> comm_result) call"
  health_recoveries :: "nat \<Rightarrow> recovery_env"

definition observe :: "nat \<Rightarrow> iter_env \<Rightarrow> pattern \<Rightarrow> pattern" where
  "observe k env p =
     (if interrupt env = Some k
      then p\<lparr>immediate_stop := True, emergency_stop := True, paused := True\<rparr>
      else p)"

definition stop_requested :: "pattern \<Rightarrow> bool" where
  "stop_requested p = (immediate_stop p \<or> emergency_stop p)"

text \<open>
  Worker start-up ("Initialize pattern with proper defaults"): the position is read from
  the servo only when the pattern has no \<^verbatim>\<open>current_position\<close> key.
\<close>

definition worker_init ::
  "int \<Rightarrow> (int \<times> comm_result) call \<Rightarrow> pattern \<Rightarrow> pattern \<times> event list" where
  "worker_init servo_id rd p =
     (let seeded =
            (case current_position p of
               Some _ \<Rightarrow> (p, [])
             | None \<Rightarrow>
                 (case rd of
                    Raises \<Rightarrow> (p\<lparr>current_position := Some 2048\<rparr>, [ReadPos servo_id])
                  | Returns (position, r) \<Rightarrow>
                      if r = COMM_SUCCESS
                      then (p\<lparr>current_position := Some position\<rparr>, [ReadPos servo_id])
                      else (p\<lparr>current_position := Some 2048\<rparr>, [ReadPos servo_id])));
          p1 = fst seeded;
          p2 = (if direction p1 = None then p1\<lparr>direction := Some 1\<rparr> else p1);
          p3 = (if cycle_count p2 = None then p2\<lparr>cycle_count := Some 0\<rparr> else p2);
          p4 = (if start_position p3 = None then p3\<lparr>start_position := Some 0\<rparr> else p3);
          p5 = (if end_position p4 = None then p4\<lparr>end_position := Some 4095\<rparr> else p4);
          p6 = (if center_position p5 = None then p5\<lparr>center_position := Some 2048\<rparr> else p5)
      in (p6, snd seeded))"

text \<open>
  The body of the loop is a \<^verbatim>\<open>try\<close> block: it completes, leaves the loop with
  \<^verbatim>\<open>break\<close>, or raises (a subscript \<^verbatim>\<open>pattern["key"]\<close> on a key that is absent
  raises \<^verbatim>\<open>KeyError\<close>) and is caught by the handler at the end of the pass.
\<close>

datatype body_outcome = Completed | Broke | Raised

datatype ctl = Continue | Break

text \<open>"Apply angle constraints if enabled": clamp, and reverse a sweep that was clamped.\<close>

definition apply_angle_constraints :: "pattern \<Rightarrow> int \<Rightarrow> (int \<times> pattern) call" where
  "apply_angle_constraints p next_position =
     (if constraints_enabled p then
        (case (min_angle p, max_angle p) of
           (Some lo, Some hi) \<Rightarrow>
             if next_position < lo then
               (if ptype p = ''sweep'' then
                  (case direction p of
                     None \<Rightarrow> Raises
                   | Some d \<Rightarrow> Returns (lo, p\<lparr>direction := Some (d * - 1)\<rparr>))
                else Returns (lo, p))
             else if next_position > hi then
               (if ptype p = ''sweep'' then
                  (case direction p of
                     None \<Rightarrow> Raises
                   | Some d \<Rightarrow> Returns (hi, p\<lparr>direction := Some (d * - 1)\<rparr>))
                else Returns (hi, p))
             else Returns (next_position, p)
         | _ \<Rightarrow> Returns (next_position, p))
      else Returns (next_position, p))"

definition bump_cycle_count :: "wstate \<Rightarrow> body_outcome \<times> wstate" where
  "bump_cycle_count st =
     (case cycle_count (pat st) of
        None \<Rightarrow> (Raised, st)
      | Some c \<Rightarrow> (Completed, st\<lparr>pat := (pat st)\<lparr>cycle_count := Some (c + 1)\<rparr>\<rparr>))"

text \<open>
  \<^verbatim>\<open>if movement_success:\<close> the worker stores the setpoint, resets the failure counter
  and, for a sweep, counts a cycle when the setpoint is at the boundary the pattern is
  heading for.
\<close>

definition success_path :: "int \<Rightarrow> wstate \<Rightarrow> body_outcome \<times> wstate" where
  "success_path next_position st =
     (let st1 = st\<lparr>pat := (pat st)\<lparr>current_position := Some next_position\<rparr>,
                    last_successful_position := Some next_position,
                    consecutive_failures := 0\<rparr>
      in if ptype (pat st1) = ''sweep'' then
           (case direction (pat st1) of
              None \<Rightarrow> (Raised, st1)
            | Some d \<Rightarrow>
                if d = 1 then
                  (case end_position (pat st1) of
                     None \<Rightarrow> (Raised, st1)
                   | Some e \<Rightarrow>
                       if next_position \<ge> e then bump_cycle_count st1 else (Completed, st1))
                else if d = - 1 then
                  (case start_position (pat st1) of
                     None \<Rightarrow> (Raised, st1)
                   | Some s \<Rightarrow>
                       if next_position \<le> s then bump_cycle_count st1 else (Completed, st1))
                else (Completed, st1))
         else (Completed, st1))"

text \<open>
  \<^verbatim>\<open>else:\<close> (the movement did not succeed) the failure counter goes up; at five the
  worker tries to recover, and the counter is set to zero after a recovery that succeeded
  and after three that failed.
\<close>

definition failure_path :: "int \<Rightarrow> (nat \<Rightarrow> recovery_env) \<Rightarrow> wstate \<Rightarrow> wstate" where
  "failure_path servo_id renv st =
     (let cf = consecutive_failures st + 1
      in if cf \<ge> 5 then
           (case recovery_loop servo_id renv [0, 1, 2] (pat st) of
              (recovery_success, p', tr) \<Rightarrow>
                if recovery_success
                then st\<lparr>pat := p', consecutive_failures := 0, trace := trace st @ tr\<rparr>
                else st\<lparr>pat := p', consecutive_failures := 0, trace := trace st @ tr\<rparr>)
         else st\<lparr>consecutive_failures := cf\<rparr>)"

text \<open>The end of a pass: step counter, health check every 20 steps, pattern delay.\<close>

definition iteration_tail :: "int \<Rightarrow> iter_env \<Rightarrow> wstate \<Rightarrow> wstate" where
  "iteration_tail servo_id env st =
     (let n = step_count st + 1;
          st1 = st\<lparr>step_count := n\<rparr>;
          st2 = (if n mod 20 = 0 then
                   (case check_communication_health_during_movement servo_id
                           (health_read env) (health_recoveries env) (pat st1) of
                      (health_status, p', tr) \<Rightarrow> st1\<lparr>pat := p', trace := trace st1 @ tr\<rparr>)
                 else st1)
      in st2\<lparr>trace := trace st2 @ [Sleep (if ptype (pat st2) = ''rotation'' then 50 else 100)]\<rparr>)"

text \<open>
  "Execute movement step with retry logic": a stop flag seen before the first attempt
  leaves the retry loop with \<^verbatim>\<open>movement_success\<close> still false; otherwise the first
  attempt calls the step function, which returns normally, so there is no second attempt.
\<close>

definition movement_stage :: "int \<Rightarrow> iter_env \<Rightarrow> int \<Rightarrow> wstate \<Rightarrow> body_outcome \<times> wstate" where
  "movement_stage servo_id env next_position st =
     (let p = observe 5 env (pat st)
      in if stop_requested p then
           (Completed,
            iteration_tail servo_id env (failure_path servo_id (recoveries env) (st\<lparr>pat := p\<rparr>)))
         else
           (case execute_step servo_id p next_position (step_write env) of
              (p', tr) \<Rightarrow>
                (case success_path next_position (st\<lparr>pat := p', trace := trace st @ tr\<rparr>) of
                   (Completed, st') \<Rightarrow> (Completed, iteration_tail servo_id env st')
                 | (oc, st') \<Rightarrow> (oc, st'))))"

definition iteration_body :: "int \<Rightarrow> iter_env \<Rightarrow> wstate \<Rightarrow> body_outcome \<times> wstate" where
  "iteration_body servo_id env st =
     (let p2 = observe 2 env (pat st)
      in if stop_requested p2 then (Broke, st\<lparr>pat := p2\<rparr>)
         else
           (case calculate_next_position (wave_term env) p2 of
              (next0, p3) \<Rightarrow>
                (let p4 = observe 3 env p3
                 in if stop_requested p4 then (Broke, st\<lparr>pat := p4\<rparr>)
                    else
                      (case apply_angle_constraints p4 next0 of
                         Raises \<Rightarrow> (Raised, st\<lparr>pat := p4\<rparr>)
                       | Returns (next1, p5) \<Rightarrow>
                           (let p6 = observe 4 env p5
                            in if stop_requested p6 then (Broke, st\<lparr>pat := p6\<rparr>)
                               else movement_stage servo_id env next1 (st\<lparr>pat := p6\<rparr>))))))"

text \<open>
  \<^verbatim>\<open>except Exception\<close> at the end of a pass: count the failure, reset the counter at
  five, wait 100 ms.
\<close>

definition exception_handler :: "wstate \<Rightarrow> wstate" where
  "exception_handler st =
     (let cf = consecutive_failures st + 1
      in st\<lparr>consecutive_failures := (if cf \<ge> 5 then 0 else cf),
            trace := trace st @ [Sleep 100]\<rparr>)"

text \<open>One pass of \<^verbatim>\<open>while pattern.get("running", False)\<close>, entered with the flag set.\<close>

definition worker_iteration :: "int \<Rightarrow> iter_env \<Rightarrow> wstate \<Rightarrow> ctl \<times> wstate" where
  "worker_iteration servo_id env st =
     (let p0 = observe 0 env (pat st)
      in if stop_requested p0 then
           (Continue, st\<lparr>pat := p0, trace := trace st @ [Sleep 100]\<rparr>)
         else
           (let p1 = observe 1 env p0
            in if paused p1 then
                 (Continue,
                  st\<lparr>pat := p1,
                      trace := trace st @ [AcquirePauseLock, Sleep 100, ReleasePauseLock]\<rparr>)
               else
                 (case iteration_body servo_id env
                         (st\<lparr>pat := p1,
                             trace := trace st @ [AcquirePauseLock, ReleasePauseLock]\<rparr>) of
                    (Completed, st') \<Rightarrow> (Continue, st')
                  | (Broke, st') \<Rightarrow> (Break, st')
                  | (Raised, st') \<Rightarrow> (Continue, exception_handler st'))))"

text \<open>
  The worker leaves the loop when \<^verbatim>\<open>running\<close> is false at its head or on
  \<^verbatim>\<open>break\<close>; its \<^verbatim>\<open>finally\<close> clause then clears \<^verbatim>\<open>running\<close>. The list gives
  one environment per pass; a worker that has used them all and has not left the loop is
  still \<open>Looping\<close>.
\<close>

datatype run_state = Looping wstate | Exited wstate

definition worker_exit :: "wstate \<Rightarrow> wstate" where
  "worker_exit st = st\<lparr>pat := (pat st)\<lparr>running := False\<rparr>\<rparr>"

fun worker_loop :: "int \<Rightarrow> iter_env list \<Rightarrow> wstate \<Rightarrow> run_state" where
  "worker_loop servo_id [] st =
     (if running (pat st) then Looping st else Exited (worker_exit st))"
| "worker_loop servo_id (env # envs) st =
     (if running (pat st) then
        (case worker_iteration servo_id env st of
           (Continue, st') \<Rightarrow> worker_loop servo_id envs st'
         | (Break, st') \<Rightarrow> Exited (worker_exit st'))
      else Exited (worker_exit st))"

definition continuous_movement_worker ::
  "int \<Rightarrow> (int \<times> comm_result) call \<Rightarrow> iter_env list \<Rightarrow> pattern \<Rightarrow> run_state" where
  "continuous_movement_worker servo_id seed_read envs p =
     (case worker_init servo_id seed_read p of
        (p', tr) \<Rightarrow>
          worker_loop servo_id envs
            \<lparr>pat = p', consecutive_failures = 0, step_count = 0,
             last_successful_position = None, trace = tr\<rparr>)"

section \<open>The controller and its request-level operations\<close>

text \<open>
  The fields of \<^verbatim>\<open>ServoController\<close> that the operations below read or write.
  \<open>port_handler\<close> says that a port handler object exists; a worker thread is
  represented by the id it is registered under; a discovered servo by its model number.
\<close>

record controller =
  port_handler :: bool
  is_connected :: bool
  discovered_servos :: "int \<rightharpoonup> int"
  continuous_movement_threads :: "int set"
  movement_patterns :: "int \<rightharpoonup> pattern"
  group_sync_speed_writer :: bool
  group_sync_position_writer :: bool

subsection \<open>disconnect\<close>

text \<open>\<^verbatim>\<open>disconnect\<close> always answers \<^verbatim>\<open>{"success": True, "message": "Disconnected"}\<close>.\<close>

definition disconnect :: "controller \<Rightarrow> bool \<times> controller \<times> event list" where
  "disconnect c =
     (True,
      c\<lparr>is_connected := False,
        discovered_servos := Map.empty,
        group_sync_speed_writer := False,
        group_sync_position_writer := False\<rparr>,
      if port_handler c then [ClosePort] else [])"

subsection \<open>pause\_continuous\_movement\<close>

record pause_env =
  pz_write_spec :: "comm_result call"
  pz_read_pos :: "(int \<times> comm_result) call"
  pz_torque :: "comm_result call"

datatype pause_error =
    InvalidServoId
  | SpeedZeroFailed comm_result
  | EnableTorqueFailed comm_result
  | HoldRaised
  | NoRunningMovement

datatype pause_item = PauseOk int | PauseFailed id_arg pause_error

datatype pause_rejection = InvalidServoIds | NotConnectedToPort

datatype pause_response =
    PauseRejected pause_rejection
  | PauseReport bool "pause_item list" nat nat

definition assert_pause_flags :: "pattern \<Rightarrow> pattern" where
  "assert_pause_flags p = p\<lparr>immediate_stop := True, emergency_stop := True, paused := True\<rparr>"

definition rollback_pause_flags :: "pattern \<Rightarrow> pattern" where
  "rollback_pause_flags p = p\<lparr>paused := False, immediate_stop := False, emergency_stop := False\<rparr>"

text \<open>
  The position at which a pause holds a positional pattern: the position read from the
  servo, or 2048 when the read fails or raises.
\<close>

definition hold_position :: "pause_env \<Rightarrow> int" where
  "hold_position env =
     (case pz_read_pos env of
        Raises \<Rightarrow> 2048
      | Returns (pos, r) \<Rightarrow> if r \<noteq> COMM_SUCCESS then 2048 else pos)"

text \<open>
  The hold command of a pause and the torque write after it. For a rotation a failed or
  raising \<^verbatim>\<open>WriteSpec\<close> is an error and the torque write is only logged; for a
  positional pattern the position read falls back to 2048, the \<^verbatim>\<open>WritePosEx\<close> is only
  logged and a failed or raising torque write is the error.
\<close>

definition pause_hold :: "int \<Rightarrow> pattern \<Rightarrow> pause_env \<Rightarrow> pause_error option \<times> event list" where
  "pause_hold servo_id p env =
     (if ptype p = ''rotation'' then
        (case pz_write_spec env of
           Raises \<Rightarrow> (Some HoldRaised, [WriteSpec servo_id 0 50])
         | Returns r \<Rightarrow>
             if r \<noteq> COMM_SUCCESS then (Some (SpeedZeroFailed r), [WriteSpec servo_id 0 50])
             else (None, [WriteSpec servo_id 0 50,
                          Write1ByteTxRx servo_id STS_TORQUE_ENABLE 1]))
      else
        (let current_pos = hold_position env;
             tr = [ReadPos servo_id, WritePosEx servo_id current_pos 0 0,
                   Write1ByteTxRx servo_id STS_TORQUE_ENABLE 1]
         in (case pz_torque env of
               Raises \<Rightarrow> (Some HoldRaised, tr)
             | Returns r \<Rightarrow>
                 if r \<noteq> COMM_SUCCESS then (Some (EnableTorqueFailed r), tr) else (None, tr))))"

record pause_acc =
  acc_patterns :: "int \<rightharpoonup> pattern"
  acc_results :: "pause_item list"
  acc_overall_success :: bool
  acc_paused_count :: nat
  acc_trace :: "event list"

definition rollback_events :: "int \<Rightarrow> event list" where
  "rollback_events servo_id =
     [SetFlag servo_id Paused False, SetFlag servo_id Immediate_stop False,
      SetFlag servo_id Emergency_stop False]"

text \<open>The pause of one servo whose pattern \<open>p\<close> is running.\<close>

definition pause_running :: "int \<Rightarrow> pattern \<Rightarrow> pause_env \<Rightarrow> pause_acc \<Rightarrow> pause_acc" where
  "pause_running servo_id p env acc =
     (let p1 = assert_pause_flags p;
          tr1 = [AcquirePauseLock, SetFlag servo_id Immediate_stop True,
                 SetFlag servo_id Emergency_stop True, SetFlag servo_id Paused True,
                 ReleasePauseLock, Sleep 100];
          p2 = (if \<not> immediate_stop p1
                then p1\<lparr>immediate_stop := True, emergency_stop := True\<rparr> else p1);
          tr2 = (if \<not> immediate_stop p1
                 then [SetFlag servo_id Immediate_stop True,
                       SetFlag servo_id Emergency_stop True, Sleep 50]
                 else [])
      in (case pause_hold servo_id p2 env of
            (Some err, tr3) \<Rightarrow>
              acc\<lparr>acc_patterns := (acc_patterns acc)(servo_id \<mapsto> rollback_pause_flags p2),
                  acc_results := acc_results acc @ [PauseFailed (IntArg servo_id) err],
                  acc_trace := acc_trace acc @ tr1 @ tr2 @ tr3 @ rollback_events servo_id\<rparr>
          | (None, tr3) \<Rightarrow>
              acc\<lparr>acc_patterns := (acc_patterns acc)(servo_id \<mapsto> p2\<lparr>emergency_stop := False\<rparr>),
                  acc_results := acc_results acc @ [PauseOk servo_id],
                  acc_paused_count := acc_paused_count acc + 1,
                  acc_trace := acc_trace acc @ tr1 @ tr2 @ tr3 @
                               [Sleep 50, SetFlag servo_id Emergency_stop False]\<rparr>))"

definition pause_one :: "pause_acc \<Rightarrow> id_arg \<times> pause_env \<Rightarrow> pause_acc" where
  "pause_one acc item =
     (case fst item of
        NonInt \<Rightarrow>
          acc\<lparr>acc_results := acc_results acc @ [PauseFailed NonInt InvalidServoId],
              acc_overall_success := False\<rparr>
      | IntArg servo_id \<Rightarrow>
          if servo_id < 0 \<or> servo_id > 253 then
            acc\<lparr>acc_results := acc_results acc @ [PauseFailed (IntArg servo_id) InvalidServoId],
                acc_overall_success := False\<rparr>
          else
            (case acc_patterns acc servo_id of
               None \<Rightarrow>
                 acc\<lparr>acc_results :=
                       acc_results acc @ [PauseFailed (IntArg servo_id) NoRunningMovement]\<rparr>
             | Some p \<Rightarrow>
                 if running p then pause_running servo_id p (snd item) acc
                 else
                   acc\<lparr>acc_results :=
                         acc_results acc @ [PauseFailed (IntArg servo_id) NoRunningMovement]\<rparr>))"

text \<open>
  \<^verbatim>\<open>pause_continuous_movement\<close>: each requested id comes with what the bus answers
  while that id is handled.
\<close>

definition pause_continuous_movement ::
  "controller \<Rightarrow> (id_arg \<times> pause_env) list \<Rightarrow> pause_response \<times> controller \<times> event list" where
  "pause_continuous_movement c servo_ids =
     (if servo_ids = [] then (PauseRejected InvalidServoIds, c, [])
      else if \<not> is_connected c then (PauseRejected NotConnectedToPort, c, [])
      else
        (let acc = foldl pause_one
                     \<lparr>acc_patterns = movement_patterns c, acc_results = [],
                      acc_overall_success = True, acc_paused_count = 0, acc_trace = []\<rparr>
                     servo_ids
         in (PauseReport (acc_overall_success acc) (acc_results acc) (acc_paused_count acc)
               (length servo_ids),
             c\<lparr>movement_patterns := acc_patterns acc\<rparr>,
             acc_trace acc)))"

subsection \<open>syncWrite\<close>

text \<open>
  \<^verbatim>\<open>syncWrite\<close> answers with a communication result only; which servos went into
  the batch is reported by its log lines, one per servo and one for the transmission.
\<close>

datatype sync_log =
    LogWriterMissing
  | LogAdded int
  | LogAddFailed int
  | LogNoneAdded
  | LogExecuted "int list"
  | LogNotAdded "int list"
  | LogRetry comm_result
  | LogGaveUp comm_result
  | LogException

record sync_out =
  sync_result :: comm_result
  sync_trace :: "event list"
  sync_log :: "sync_log list"

text \<open>
  The loop that adds the servos: an entry is a servo id, position, speed, acceleration
  and what \<^verbatim>\<open>SyncWritePosEx\<close> answers for it. The result is \<open>None\<close> when a call raised.
\<close>

fun sync_add_all ::
  "(int \<times> int \<times> int \<times> int \<times> bool call) list \<Rightarrow> int list \<Rightarrow> int list \<Rightarrow> event list
     \<Rightarrow> sync_log list \<Rightarrow> (int list \<times> int list) option \<times> event list \<times> sync_log list" where
  "sync_add_all [] added failed tr lg = (Some (added, failed), tr, lg)"
| "sync_add_all ((servo_id, position, spd, acc, answer) # rest) added failed tr lg =
     (case answer of
        Raises \<Rightarrow> (None, tr @ [SyncWritePosEx servo_id position spd acc], lg)
      | Returns ok \<Rightarrow>
          if ok then
            sync_add_all rest (added @ [servo_id]) failed
              (tr @ [SyncWritePosEx servo_id position spd acc]) (lg @ [LogAdded servo_id])
          else
            sync_add_all rest added (failed @ [servo_id])
              (tr @ [SyncWritePosEx servo_id position spd acc]) (lg @ [LogAddFailed servo_id]))"

text \<open>"Execute the group sync write with retry logic": \<^verbatim>\<open>max_retries = 2\<close>.\<close>

definition sync_transmit ::
  "(nat \<Rightarrow> comm_result call) \<Rightarrow> int list \<Rightarrow> int list
     \<Rightarrow> comm_result \<times> event list \<times> sync_log list" where
  "sync_transmit tx added failed =
     (case tx 0 of
        Raises \<Rightarrow> (COMM_TX_ERROR, [TxPacket], [LogException])
      | Returns r0 \<Rightarrow>
          if r0 = COMM_SUCCESS then
            (r0, [TxPacket],
             LogExecuted added # (if failed \<noteq> [] then [LogNotAdded failed] else []))
          else
            (case tx 1 of
               Raises \<Rightarrow>
                 (COMM_TX_ERROR, [TxPacket, Sleep 50, TxPacket], [LogRetry r0, LogException])
             | Returns r1 \<Rightarrow>
                 if r1 = COMM_SUCCESS then
                   (r1, [TxPacket, Sleep 50, TxPacket],
                    LogRetry r0 # LogExecuted added #
                      (if failed \<noteq> [] then [LogNotAdded failed] else []))
                 else
                   (r1, [TxPacket, Sleep 50, TxPacket], [LogRetry r0, LogGaveUp r1])))"

definition syncWrite ::
  "bool \<Rightarrow> (int \<times> int \<times> int \<times> int \<times> bool call) list \<Rightarrow> (nat \<Rightarrow> comm_result call)
     \<Rightarrow> sync_out" where
  "syncWrite position_writer servo_data tx =
     (if \<not> position_writer then
        \<lparr>sync_result = COMM_TX_ERROR, sync_trace = [], sync_log = [LogWriterMissing]\<rparr>
      else
        (case sync_add_all servo_data [] [] [ClearParam] [] of
           (None, tr, lg) \<Rightarrow>
             \<lparr>sync_result = COMM_TX_ERROR, sync_trace = tr, sync_log = lg @ [LogException]\<rparr>
         | (Some (added, failed), tr, lg) \<Rightarrow>
             if added = [] then
               \<lparr>sync_result = COMM_TX_ERROR, sync_trace = tr, sync_log = lg @ [LogNoneAdded]\<rparr>
             else
               (case sync_transmit tx added failed of
                  (r, tr', lg') \<Rightarrow>
                    \<lparr>sync_result = r, sync_trace = tr @ tr', sync_log = lg @ lg'\<rparr>)))"

text \<open>The ids of the entries that \<^verbatim>\<open>SyncWritePosEx\<close> accepted, in batch order.\<close>

fun accepted_ids :: "(int \<times> int \<times> int \<times> int \<times> bool call) list \<Rightarrow> int list" where
  "accepted_ids [] = []"
| "accepted_ids ((servo_id, position, spd, acc, answer) # rest) =
     (if answer = Returns True then servo_id # accepted_ids rest else accepted_ids rest)"

fun logged_added :: "sync_log list \<Rightarrow> int list" where
  "logged_added [] = []"
| "logged_added (LogAdded i # rest) = i # logged_added rest"
| "logged_added (_ # rest) = logged_added rest"

section \<open>Vocabulary of the properties\<close>

text \<open>A motion command is a position or speed setpoint sent to a servo.\<close>

fun is_motion_command :: "event \<Rightarrow> bool" where
  "is_motion_command (WritePosEx _ _ _ _) = True"
| "is_motion_command (WriteSpec _ _ _) = True"
| "is_motion_command _ = False"

text \<open>
  The keys that the loop of the worker subscripts are present; the worker's start-up
  sets each of them.
\<close>

definition initialised :: "pattern \<Rightarrow> bool" where
  "initialised p =
     (current_position p \<noteq> None \<and> direction p \<noteq> None \<and> cycle_count p \<noteq> None \<and>
      start_position p \<noteq> None \<and> end_position p \<noteq> None \<and> center_position p \<noteq> None)"

definition known_type :: "pattern \<Rightarrow> bool" where
  "known_type p = (ptype p = ''sweep'' \<or> ptype p = ''rotation'' \<or> ptype p = ''wave'')"

text \<open>
  \<open>same_settings p p'\<close>: \<open>p'\<close> differs from \<open>p\<close> at most in the three fields a
  running worker writes (position, direction, cycle count).
\<close>

definition same_settings :: "pattern \<Rightarrow> pattern \<Rightarrow> bool" where
  "same_settings p p' =
     (p' = p\<lparr>current_position := current_position p', direction := direction p',
             cycle_count := cycle_count p'\<rparr>)"

definition motion_commands :: "event list \<Rightarrow> event list" where
  "motion_commands tr = filter is_motion_command tr"

text \<open>No pause request interferes with any pass of the list.\<close>

definition undisturbed :: "iter_env list \<Rightarrow> bool" where
  "undisturbed envs = list_all (\<lambda>env. interrupt env = None) envs"

text \<open>
  \<open>evolves p p'\<close>: \<open>p'\<close> has the settings of \<open>p\<close>, and a key among position, direction
  and cycle count that \<open>p\<close> has is still there in \<open>p'\<close>.
\<close>

definition evolves :: "pattern \<Rightarrow> pattern \<Rightarrow> bool" where
  "evolves p p' =
     (same_settings p p' \<and>
      (current_position p = None \<or> current_position p' \<noteq> None) \<and>
      (direction p = None \<or> direction p' \<noteq> None) \<and>
      (cycle_count p = None \<or> cycle_count p' \<noteq> None))"

text \<open>
  What the adding loop of \<^verbatim>\<open>syncWrite\<close> meets in a batch: whether a call raises, the
  ids that were refused, the calls issued and the lines logged.
\<close>

fun any_add_raises :: "(int \<times> int \<times> int \<times> int \<times> bool call) list \<Rightarrow> bool" where
  "any_add_raises [] = False"
| "any_add_raises ((servo_id, position, spd, acc, answer) # rest) =
     (answer = Raises \<or> any_add_raises rest)"

fun refused_ids :: "(int \<times> int \<times> int \<times> int \<times> bool call) list \<Rightarrow> int list" where
  "refused_ids [] = []"
| "refused_ids ((servo_id, position, spd, acc, answer) # rest) =
     (if answer = Returns False then servo_id # refused_ids rest else refused_ids rest)"

fun add_calls :: "(int \<times> int \<times> int \<times> int \<times> bool call) list \<Rightarrow> event list" where
  "add_calls [] = []"
| "add_calls ((servo_id, position, spd, acc, answer) # rest) =
     SyncWritePosEx servo_id position spd acc # add_calls rest"

fun add_logs :: "(int \<times> int \<times> int \<times> int \<times> bool call) list \<Rightarrow> sync_log list" where
  "add_logs [] = []"
| "add_logs ((servo_id, position, spd, acc, answer) # rest) =
     (if answer = Returns True then LogAdded servo_id else LogAddFailed servo_id) # add_logs rest"

text \<open>
  What a worker sends in the first pass of its loop when the loop starts on pattern \<open>q\<close>,
  angle constraints are disabled and no stop or pause is in effect, stated from the
  pattern's rule: a sweep steps from the position of \<open>q\<close>, with 2048 in its place when
  that position lies outside [0, 4095]; a wave goes to its centre plus the sine term; a
  rotation gets a speed command; an unknown type sends nothing.
\<close>

definition first_command :: "int \<Rightarrow> iter_env \<Rightarrow> pattern \<Rightarrow> event list" where
  "first_command servo_id env q =
     (let s = get_or (current_position q) 2048;
          u = (if s < 0 \<or> s > 4095 then 2048 else s);
          spd = max 0 (min 1023 (speed q));
          acc = max 0 (min 254 (acceleration q))
      in if ptype q = ''sweep'' then
           [WritePosEx servo_id (fst (calculate_sweep_position q u)) spd acc]
         else if ptype q = ''rotation'' then
           [WriteSpec servo_id
              (max 0 (min 2047 (if speed q < 0 then \<bar>speed q\<bar> + 1024 else \<bar>speed q\<bar>))) acc]
         else if ptype q = ''wave'' then
           [WritePosEx servo_id
              (clamp_position (get_or (center_position q) 2048 + wave_term env)) spd acc]
         else [])"

section \<open>Concrete inputs\<close>

text \<open>A servo answers at id 1, nothing answers at id 5, and every EEPROM step succeeds.\<close>

definition id_change_env :: change_id_env where
  "id_change_env =
     \<lparr>ping_old = Returns COMM_SUCCESS, ping_new = Returns COMM_RX_TIMEOUT,
      unlock_old = Returns COMM_SUCCESS, write_id = Returns COMM_SUCCESS,
      lock_new = Returns COMM_SUCCESS, verify_new = Returns COMM_SUCCESS\<rparr>"

text \<open>
  A start request for servo 1: a sweep between 1000 and 3000 at speed 1000, two cycles,
  no angle constraints.
\<close>

definition sweep_request :: movement_config where
  "sweep_request =
     \<lparr>cfg_servo_id = Some 1, cfg_type = Some ''sweep'', cfg_speed = Some 1000,
      cfg_acceleration = Some 50, cfg_constraints_enabled = False, cfg_min_angle = None,
      cfg_max_angle = None, cfg_min_position = Some 1000, cfg_max_position = Some 3000,
      cfg_center_position = None, cfg_direction = None, cfg_cycles = Some 2\<rparr>"

text \<open>A servo that answers every call, and reports position 2048 when read.\<close>

definition healthy_recovery :: recovery_env where
  "healthy_recovery =
     \<lparr>rec_ping = Returns COMM_SUCCESS, rec_torque = Returns COMM_SUCCESS,
      rec_read = Returns (2048, COMM_SUCCESS)\<rparr>"

definition quiet_env :: iter_env where
  "quiet_env =
     \<lparr>interrupt = None, wave_term = 0, step_write = Returns COMM_SUCCESS,
      recoveries = (\<lambda>k. healthy_recovery), health_read = Returns (2048, COMM_SUCCESS),
      health_recoveries = (\<lambda>k. healthy_recovery)\<rparr>"

text \<open>A servo that answers nothing: every call times out.\<close>

definition dead_recovery :: recovery_env where
  "dead_recovery =
     \<lparr>rec_ping = Returns COMM_RX_TIMEOUT, rec_torque = Returns COMM_RX_TIMEOUT,
      rec_read = Returns (0, COMM_RX_TIMEOUT)\<rparr>"

definition dead_env :: iter_env where
  "dead_env =
     \<lparr>interrupt = None, wave_term = 0, step_write = Returns COMM_RX_TIMEOUT,
      recoveries = (\<lambda>k. dead_recovery), health_read = Returns (0, COMM_RX_TIMEOUT),
      health_recoveries = (\<lambda>k. dead_recovery)\<rparr>"

text \<open>The worker of servo 1 on the pattern of the start request, for a number of passes.\<close>

definition sweep_run :: "nat \<Rightarrow> run_state" where
  "sweep_run n =
     continuous_movement_worker 1 (Returns (2048, COMM_SUCCESS)) (replicate n quiet_env)
       (start_pattern False sweep_request)"

text \<open>The state in which that worker enters its loop.\<close>

definition sweep_start :: wstate where
  "sweep_start =
     \<lparr>pat = fst (worker_init 1 (Returns (2048, COMM_SUCCESS)) (start_pattern False sweep_request)),
      consecutive_failures = 0, step_count = 0, last_successful_position = None,
      trace = snd (worker_init 1 (Returns (2048, COMM_SUCCESS)) (start_pattern False sweep_request))\<rparr>"

text \<open>The same worker after four failures in a row, and a pause request that arrives
  between the angle constraints and the first movement attempt of a pass.\<close>

definition sweep_failing :: wstate where
  "sweep_failing = sweep_start\<lparr>consecutive_failures := 4\<rparr>"

definition pause_arrives :: iter_env where
  "pause_arrives = dead_env\<lparr>interrupt := Some 5\<rparr>"

text \<open>
  A connected controller with two workers that have entered their loops: servo 1
  rotates, servo 2 sweeps. A bus that answers every call of a pause (position 1234 when
  read), and one that answers none.
\<close>

definition rotation_request :: movement_config where
  "rotation_request =
     \<lparr>cfg_servo_id = Some 1, cfg_type = Some ''rotation'', cfg_speed = Some 300,
      cfg_acceleration = Some 50, cfg_constraints_enabled = False, cfg_min_angle = None,
      cfg_max_angle = None, cfg_min_position = None, cfg_max_position = None,
      cfg_center_position = None, cfg_direction = Some 1, cfg_cycles = None\<rparr>"

definition rotating :: pattern where
  "rotating = fst (worker_init 1 (Returns (2048, COMM_SUCCESS)) (start_pattern False rotation_request))"

definition sweeping :: pattern where
  "sweeping = fst (worker_init 2 (Returns (2048, COMM_SUCCESS)) (start_pattern False sweep_request))"

definition moving_controller :: controller where
  "moving_controller =
     \<lparr>port_handler = True, is_connected = True,
      discovered_servos = [1 \<mapsto> 777, 2 \<mapsto> 777],
      continuous_movement_threads = {1, 2},
      movement_patterns = [1 \<mapsto> rotating, 2 \<mapsto> sweeping],
      group_sync_speed_writer = True, group_sync_position_writer = True\<rparr>"

definition pause_answered :: pause_env where
  "pause_answered =
     \<lparr>pz_write_spec = Returns COMM_SUCCESS, pz_read_pos = Returns (1234, COMM_SUCCESS),
      pz_torque = Returns COMM_SUCCESS\<rparr>"


definition pause_start :: pause_acc where
  "pause_start =
     \<lparr>acc_patterns = movement_patterns moving_controller, acc_results = [],
      acc_overall_success = True, acc_paused_count = 0, acc_trace = []\<rparr>"


text \<open>
  A batch of three servos for the group writer: the SDK accepts servos 1 and 7 and
  refuses servo 99; the first transmission fails and the second succeeds.
\<close>

definition sync_batch :: "(int \<times> int \<times> int \<times> int \<times> bool call) list" where
  "sync_batch =
     [(1, 1000, 100, 50, Returns True), (7, 2000, 100, 50, Returns True),
      (99, 3000, 100, 50, Returns False)]"

definition sync_second_try :: "nat \<Rightarrow> comm_result call" where
  "sync_second_try k = (if k = 0 then Returns COMM_RX_TIMEOUT else Returns COMM_SUCCESS)"



text \<open>The pattern of the start request for servo 1 without a \<^verbatim>\<open>current_position\<close> key.\<close>

definition blank_sweep :: pattern where
  "blank_sweep = (start_pattern False sweep_request)\<lparr>current_position := None\<rparr>"

section \<open>Properties of change\_servo\_id\<close>

lemma change_id_eeprom_success:
  "fst (change_id_eeprom old_id new_id env tr) = Inr () \<Longrightarrow>
     unlock_old env = Returns COMM_SUCCESS \<and> write_id env = Returns COMM_SUCCESS \<and>
     lock_new env = Returns COMM_SUCCESS \<and> verify_new env = Returns COMM_SUCCESS"
  by (auto simp: change_id_eeprom_def split: call.splits if_splits)

text \<open>
  C8. \<^verbatim>\<open>change_servo_id(old, new)\<close> answers with an error and issues no call at all when
  the controller is not connected, when an id is not an integer or lies outside [0, 253],
  or when both ids are equal; it answers with an error and issues no EEPROM call (unlock,
  register write, lock) when the ping of the old id does not succeed or the ping of the
  new id succeeds. When it proceeds and each EEPROM step succeeds, the calls are, in this
  order: ping old, ping new, unlock EEPROM on old, (100 ms), write new to the ID register
  of old, (150 ms), lock EEPROM addressed to new, wait 200 ms, ping new; the answer is
  success exactly when that last ping succeeds. Whatever the inputs, a success answer
  implies that the verification ping succeeded.
\<close>

theorem change_servo_id_contract:
  fixes old_id new_id :: int
  shows
  "(\<not> c \<or> a = NonInt \<or> b = NonInt \<longrightarrow>
      isl (fst (change_servo_id c a b env)) \<and> snd (change_servo_id c a b env) = [])
   \<and> (old_id < 0 \<or> old_id > 253 \<or> new_id < 0 \<or> new_id > 253 \<or> old_id = new_id \<longrightarrow>
      isl (fst (change_servo_id c (IntArg old_id) (IntArg new_id) env)) \<and>
      snd (change_servo_id c (IntArg old_id) (IntArg new_id) env) = [])
   \<and> (ping_old env \<noteq> Returns COMM_SUCCESS \<or> ping_new env = Returns COMM_SUCCESS \<longrightarrow>
      isl (fst (change_servo_id c (IntArg old_id) (IntArg new_id) env)) \<and>
      \<not> list_ex touches_eeprom (snd (change_servo_id c (IntArg old_id) (IntArg new_id) env)))
   \<and> (c \<and> 0 \<le> old_id \<and> old_id \<le> 253 \<and> 0 \<le> new_id \<and> new_id \<le> 253 \<and> old_id \<noteq> new_id \<and>
       ping_old env = Returns COMM_SUCCESS \<and> ping_new env \<noteq> Returns COMM_SUCCESS \<and>
       unlock_old env = Returns COMM_SUCCESS \<and> write_id env = Returns COMM_SUCCESS \<and>
       lock_new env = Returns COMM_SUCCESS \<longrightarrow>
      snd (change_servo_id c (IntArg old_id) (IntArg new_id) env) =
        [Ping old_id, Ping new_id, UnLockEprom old_id, Sleep 100,
         Write1ByteTxRx old_id STS_ID new_id, Sleep 150, LockEprom new_id, Sleep 200,
         Ping new_id] \<and>
      (fst (change_servo_id c (IntArg old_id) (IntArg new_id) env) = Inr ()
         \<longleftrightarrow> verify_new env = Returns COMM_SUCCESS))
   \<and> (fst (change_servo_id c a b env) = Inr () \<longrightarrow> verify_new env = Returns COMM_SUCCESS)"
  apply (intro conjI impI)
  subgoal by (auto simp: change_servo_id_def split: id_arg.splits)
  subgoal by (auto simp: change_servo_id_def split: id_arg.splits)
  subgoal by (auto simp: change_servo_id_def)
  subgoal by (auto simp: change_servo_id_def)
  subgoal by (auto simp: change_servo_id_def split: call.splits)
  subgoal by (auto simp: change_servo_id_def split: call.splits)
  subgoal by (auto simp: change_servo_id_def change_id_eeprom_def split: call.splits)
  subgoal by (auto simp: change_servo_id_def change_id_eeprom_def split: call.splits)
  subgoal
    by (auto simp: change_servo_id_def split: id_arg.splits call.splits if_splits
             dest: change_id_eeprom_success)
  done

theorem change_servo_id_contract_witness:
  "fst (change_servo_id True (IntArg 1) (IntArg 5) id_change_env) = Inr ()
   \<and> snd (change_servo_id True (IntArg 1) (IntArg 5) id_change_env) =
       [Ping 1, Ping 5, UnLockEprom 1, Sleep 100, Write1ByteTxRx 1 STS_ID 5, Sleep 150,
        LockEprom 5, Sleep 200, Ping 5]
   \<and> isl (fst (change_servo_id True (IntArg 1) (IntArg 1) id_change_env))
   \<and> snd (change_servo_id True (IntArg 1) (IntArg 1) id_change_env) = []
   \<and> isl (fst (change_servo_id False (IntArg 1) NonInt id_change_env))
   \<and> isl (fst (change_servo_id True (IntArg 1) (IntArg 5)
                 (id_change_env\<lparr>ping_new := Returns COMM_SUCCESS\<rparr>)))
   \<and> \<not> list_ex touches_eeprom
         (snd (change_servo_id True (IntArg 1) (IntArg 5)
                 (id_change_env\<lparr>ping_new := Returns COMM_SUCCESS\<rparr>)))"
  using change_servo_id_contract [of True "IntArg 1" "IntArg 5" id_change_env 1 5]
        change_servo_id_contract [of True "IntArg 1" "IntArg 1" id_change_env 1 1]
        change_servo_id_contract [of False "IntArg 1" NonInt id_change_env 1 5]
        change_servo_id_contract [of True "IntArg 1" "IntArg 5"
          "id_change_env\<lparr>ping_new := Returns COMM_SUCCESS\<rparr>" 1 5]
  by (simp add: id_change_env_def)

section \<open>Properties of the worker's stages\<close>

text \<open>
  Each stage of a pass changes at most the position, the direction and the cycle count of
  the pattern, and only the movement step sends a motion command.
\<close>

lemma evolves_refl [simp]: "evolves p p"
  by (auto simp add: evolves_def same_settings_def)

lemma evolves_trans: "evolves p q \<Longrightarrow> evolves q r \<Longrightarrow> evolves p r"
  by (cases p; cases q; cases r) (auto simp add: evolves_def same_settings_def)

lemma evolves_initialised: "evolves p p' \<Longrightarrow> initialised p \<Longrightarrow> initialised p'"
  by (cases p; cases p') (auto simp add: evolves_def same_settings_def initialised_def)

lemma evolves_flags:
  "evolves p p' \<Longrightarrow> stop_requested p' = stop_requested p \<and> paused p' = paused p \<and>
     running p' = running p \<and> known_type p' = known_type p"
  by (cases p; cases p') (simp add: evolves_def same_settings_def stop_requested_def known_type_def)

lemma evolves_position [simp]: "evolves p (p\<lparr>current_position := Some v\<rparr>)"
  by (cases p) (auto simp add: evolves_def same_settings_def)

lemma attempt_servo_recovery_frame:
  "attempt_servo_recovery sid renv p = (ok, p', tr) \<Longrightarrow>
     evolves p p' \<and> motion_commands tr = []"
  by (auto simp: attempt_servo_recovery_def motion_commands_def
           split: call.splits if_splits prod.splits)

lemma recovery_loop_frame:
  "recovery_loop sid renv ks p = (ok, p', tr) \<Longrightarrow> evolves p p' \<and> motion_commands tr = []"
proof (induction ks arbitrary: p ok p' tr)
  case Nil
  then show ?case by (simp add: motion_commands_def)
next
  case (Cons k ks)
  obtain ok1 p1 tr1 where a: "attempt_servo_recovery sid (renv k) p = (ok1, p1, tr1)"
    by (cases "attempt_servo_recovery sid (renv k) p") auto
  note f1 = attempt_servo_recovery_frame [OF a]
  show ?case
  proof (cases ok1)
    case True
    with Cons.prems a f1 show ?thesis by auto
  next
    case False
    obtain ok2 p2 tr2 where b: "recovery_loop sid renv ks p1 = (ok2, p2, tr2)"
      by (cases "recovery_loop sid renv ks p1") auto
    note f2 = Cons.IH [OF b]
    from Cons.prems a b False have "p' = p2" "tr = tr1 @ [Sleep 100] @ tr2" by auto
    with f1 f2 show ?thesis
      by (auto simp: motion_commands_def intro: evolves_trans)
  qed
qed

lemma health_recovery_loop_frame:
  "health_recovery_loop sid renv ks p = (ok, p', tr) \<Longrightarrow>
     evolves p p' \<and> motion_commands tr = []"
proof (induction ks arbitrary: p ok p' tr)
  case Nil
  then show ?case by (simp add: motion_commands_def)
next
  case (Cons k ks)
  obtain ok1 p1 tr1 where a: "attempt_servo_recovery sid (renv k) p = (ok1, p1, tr1)"
    by (cases "attempt_servo_recovery sid (renv k) p") auto
  note f1 = attempt_servo_recovery_frame [OF a]
  show ?case
  proof (cases ok1)
    case True
    with Cons.prems a f1 show ?thesis by auto
  next
    case False
    obtain ok2 p2 tr2 where b: "health_recovery_loop sid renv ks p1 = (ok2, p2, tr2)"
      by (cases "health_recovery_loop sid renv ks p1") auto
    note f2 = Cons.IH [OF b]
    from Cons.prems a b False
    have "p' = p2" "tr = tr1 @ (if ks = [] then [] else [Sleep 100]) @ tr2" by auto
    with f1 f2 show ?thesis
      by (auto simp: motion_commands_def intro: evolves_trans)
  qed
qed

lemma check_health_frame:
  "check_communication_health_during_movement sid rd renv p = (hs, p', tr) \<Longrightarrow>
     hs \<and> evolves p p' \<and> motion_commands tr = []"
proof -
  assume h: "check_communication_health_during_movement sid rd renv p = (hs, p', tr)"
  obtain ok1 p1 tr1 where l: "health_recovery_loop sid renv [0, 1, 2] p = (ok1, p1, tr1)"
    by (cases "health_recovery_loop sid renv [0, 1, 2] p") auto
  note f = health_recovery_loop_frame [OF l]
  from h l f show ?thesis
    by (auto simp: check_communication_health_during_movement_def motion_commands_def
             simp del: health_recovery_loop.simps
             split: call.splits if_splits)
qed

lemma failure_path_frame:
  "evolves (pat st) (pat (failure_path sid renv st)) \<and>
   motion_commands (trace (failure_path sid renv st)) = motion_commands (trace st) \<and>
   step_count (failure_path sid renv st) = step_count st \<and>
   consecutive_failures (failure_path sid renv st) =
     (if consecutive_failures st + 1 \<ge> 5 then 0 else consecutive_failures st + 1)"
proof -
  obtain ok1 p1 tr1 where l: "recovery_loop sid renv [0, 1, 2] (pat st) = (ok1, p1, tr1)"
    by (cases "recovery_loop sid renv [0, 1, 2] (pat st)") auto
  note f = recovery_loop_frame [OF l]
  from l f show ?thesis
    by (auto simp: failure_path_def Let_def motion_commands_def
             simp del: recovery_loop.simps)
qed

lemma iteration_tail_frame:
  "evolves (pat st) (pat (iteration_tail sid env st)) \<and>
   motion_commands (trace (iteration_tail sid env st)) = motion_commands (trace st) \<and>
   step_count (iteration_tail sid env st) = step_count st + 1 \<and>
   consecutive_failures (iteration_tail sid env st) = consecutive_failures st"
proof -
  obtain hs p1 tr1 where
    l: "check_communication_health_during_movement sid (health_read env)
          (health_recoveries env) (pat (st\<lparr>step_count := step_count st + 1\<rparr>)) = (hs, p1, tr1)"
    by (cases "check_communication_health_during_movement sid (health_read env)
          (health_recoveries env) (pat (st\<lparr>step_count := step_count st + 1\<rparr>))") auto
  note f = check_health_frame [OF l]
  from l f show ?thesis
    by (auto simp: iteration_tail_def Let_def motion_commands_def)
qed

lemma clamp_position_range [simp]: "0 \<le> clamp_position x \<and> clamp_position x \<le> 4095"
  by (simp add: clamp_position_def)

lemma calculate_sweep_position_frame:
  "calculate_sweep_position p cur = (n, p') \<Longrightarrow>
     evolves p p' \<and> current_position p' = current_position p \<and> 0 \<le> n \<and> n \<le> 4095"
  by (cases p) (auto simp: calculate_sweep_position_def Let_def evolves_def same_settings_def
                     split: if_splits)

lemma calculate_next_position_frame:
  "calculate_next_position w p = (n, p') \<Longrightarrow>
     evolves p p' \<and> current_position p' = current_position p \<and> 0 \<le> n \<and> n \<le> 4095"
  by (auto simp: calculate_next_position_def calculate_wave_position_def Let_def
           split: if_splits dest: calculate_sweep_position_frame)

lemma apply_angle_constraints_frame:
  "direction p \<noteq> None \<Longrightarrow>
     \<exists>n' p'. apply_angle_constraints p n = Returns (n', p') \<and> evolves p p' \<and>
       current_position p' = current_position p"
  by (cases p) (auto simp: apply_angle_constraints_def evolves_def same_settings_def
                     split: option.splits)

lemma execute_step_frame:
  "execute_step sid p n wr = (p', tr) \<Longrightarrow>
     evolves p p' \<and> motion_commands tr = tr \<and> length tr = (if known_type p then 1 else 0)"
  by (auto simp: execute_step_def execute_sweep_step_def execute_wave_step_def
                 execute_rotation_step_def Let_def motion_commands_def known_type_def
           split: if_splits)

lemma success_path_frame:
  "initialised (pat st) \<Longrightarrow>
     \<exists>st'. success_path n st = (Completed, st') \<and> evolves (pat st) (pat st') \<and>
       trace st' = trace st \<and> consecutive_failures st' = 0 \<and> step_count st' = step_count st"
  by (cases st; cases "pat st")
     (auto simp: success_path_def bump_cycle_count_def Let_def initialised_def evolves_def
                 same_settings_def)

lemma observe_none [simp]: "interrupt env = None \<Longrightarrow> observe k env p = p"
  by (simp add: observe_def)

lemma movement_stage_undisturbed:
  assumes "interrupt env = None" and "\<not> stop_requested (pat st)" and "initialised (pat st)"
  shows "\<exists>st' cmds. movement_stage sid env n st = (Completed, st') \<and>
           evolves (pat st) (pat st') \<and>
           motion_commands (trace st') = motion_commands (trace st) @ cmds \<and>
           length cmds = (if known_type (pat st) then 1 else 0) \<and>
           consecutive_failures st' = 0 \<and> step_count st' = step_count st + 1"
proof -
  obtain p1 tr1 where e: "execute_step sid (pat st) n (step_write env) = (p1, tr1)"
    by (cases "execute_step sid (pat st) n (step_write env)") auto
  note f1 = execute_step_frame [OF e]
  let ?st1 = "st\<lparr>pat := p1, trace := trace st @ tr1\<rparr>"
  have i1: "initialised (pat ?st1)"
    using f1 assms(3) by (auto intro: evolves_initialised)
  from success_path_frame [OF i1, of n] obtain st2 where
    s: "success_path n ?st1 = (Completed, st2)" and
    s2: "evolves p1 (pat st2)" "trace st2 = trace st @ tr1" "consecutive_failures st2 = 0"
        "step_count st2 = step_count st"
    by auto
  note f3 = iteration_tail_frame [of st2 sid env]
  have m: "movement_stage sid env n st = (Completed, iteration_tail sid env st2)"
    using assms(1,2) e s by (simp add: movement_stage_def)
  have ev: "evolves (pat st) (pat (iteration_tail sid env st2))"
    using f1 s2(1) f3 by (blast intro: evolves_trans)
  have mc: "motion_commands (trace (iteration_tail sid env st2)) =
              motion_commands (trace st) @ tr1"
    using f3 s2(2) f1 by (simp add: motion_commands_def)
  show ?thesis
    using m ev mc f1 f3 s2(3,4) by auto
qed

lemma iteration_body_undisturbed:
  assumes "interrupt env = None" and "\<not> stop_requested (pat st)" and "initialised (pat st)"
  shows "\<exists>st' cmds. iteration_body sid env st = (Completed, st') \<and>
           evolves (pat st) (pat st') \<and>
           motion_commands (trace st') = motion_commands (trace st) @ cmds \<and>
           length cmds = (if known_type (pat st) then 1 else 0) \<and>
           consecutive_failures st' = 0 \<and> step_count st' = step_count st + 1"
proof -
  obtain n0 p3 where c: "calculate_next_position (wave_term env) (pat st) = (n0, p3)"
    by (cases "calculate_next_position (wave_term env) (pat st)") auto
  note f1 = calculate_next_position_frame [OF c]
  have e3: "evolves (pat st) p3" using f1 by simp
  have i3: "initialised p3" using e3 assms(3) by (rule evolves_initialised)
  have d3: "direction p3 \<noteq> None" using i3 by (simp add: initialised_def)
  from apply_angle_constraints_frame [OF d3, of n0] obtain n1 p5 where
    a: "apply_angle_constraints p3 n0 = Returns (n1, p5)" and e5: "evolves p3 p5"
    by auto
  have e05: "evolves (pat st) p5" using e3 e5 by (rule evolves_trans)
  let ?st5 = "st\<lparr>pat := p5\<rparr>"
  have s3: "\<not> stop_requested p3" using evolves_flags [OF e3] assms(2) by simp
  have s5: "\<not> stop_requested (pat ?st5)" using evolves_flags [OF e05] assms(2) by simp
  have i5: "initialised (pat ?st5)" using e05 assms(3) by (auto intro: evolves_initialised)
  have k5: "known_type (pat ?st5) = known_type (pat st)" using evolves_flags [OF e05] by simp
  from movement_stage_undisturbed [OF assms(1) s5 i5, of sid n1] obtain st' cmds where
    m: "movement_stage sid env n1 ?st5 = (Completed, st')" and
    m2: "evolves p5 (pat st')" "motion_commands (trace st') = motion_commands (trace st) @ cmds"
        "length cmds = (if known_type (pat st) then 1 else 0)"
        "consecutive_failures st' = 0" "step_count st' = step_count st + 1"
    using k5 by auto
  have b: "iteration_body sid env st = (Completed, st')"
    using assms(1,2) c a s3 s5 m by (simp add: iteration_body_def)
  have "evolves (pat st) (pat st')" using e05 m2(1) by (rule evolves_trans)
  with b m2 show ?thesis by blast
qed

lemma worker_iteration_undisturbed:
  assumes "interrupt env = None" and "\<not> stop_requested (pat st)" and "\<not> paused (pat st)"
      and "initialised (pat st)"
  shows "\<exists>st' cmds. worker_iteration sid env st = (Continue, st') \<and>
           evolves (pat st) (pat st') \<and>
           motion_commands (trace st') = motion_commands (trace st) @ cmds \<and>
           length cmds = (if known_type (pat st) then 1 else 0) \<and>
           consecutive_failures st' = 0 \<and> step_count st' = step_count st + 1"
proof -
  let ?st0 = "st\<lparr>pat := pat st, trace := trace st @ [AcquirePauseLock, ReleasePauseLock]\<rparr>"
  have "\<not> stop_requested (pat ?st0)" "initialised (pat ?st0)" using assms by simp_all
  from iteration_body_undisturbed [OF assms(1) this, of sid] obtain st' cmds where
    b: "iteration_body sid env ?st0 = (Completed, st')" and
    b2: "evolves (pat st) (pat st')"
        "motion_commands (trace st') = motion_commands (trace st) @ cmds"
        "length cmds = (if known_type (pat st) then 1 else 0)"
        "consecutive_failures st' = 0" "step_count st' = step_count st + 1"
    by (auto simp: motion_commands_def)
  have "worker_iteration sid env st = (Continue, st')"
    using assms(1,2,3) b by (simp add: worker_iteration_def)
  with b2 show ?thesis by blast
qed

lemma worker_loop_undisturbed:
  assumes "undisturbed envs" and "running (pat st)" and "\<not> stop_requested (pat st)"
      and "\<not> paused (pat st)" and "initialised (pat st)"
  shows "\<exists>st'. worker_loop sid envs st = Looping st' \<and> evolves (pat st) (pat st') \<and>
           length (motion_commands (trace st')) =
             length (motion_commands (trace st)) + (if known_type (pat st) then length envs else 0)"
  using assms
proof (induction envs arbitrary: st)
  case Nil
  then show ?case by simp
next
  case (Cons env envs)
  from Cons.prems(1) have u: "interrupt env = None" "undisturbed envs"
    by (simp_all add: undisturbed_def)
  from worker_iteration_undisturbed [OF u(1) Cons.prems(3,4,5), of sid] obtain st1 cmds where
    w: "worker_iteration sid env st = (Continue, st1)" and
    w2: "evolves (pat st) (pat st1)"
        "motion_commands (trace st1) = motion_commands (trace st) @ cmds"
        "length cmds = (if known_type (pat st) then 1 else 0)"
    by blast
  note fl = evolves_flags [OF w2(1)]
  have i1: "initialised (pat st1)" using w2(1) Cons.prems(5) by (rule evolves_initialised)
  from Cons.IH [OF u(2), of st1] fl Cons.prems i1 obtain st' where
    l: "worker_loop sid envs st1 = Looping st'" and
    l2: "evolves (pat st1) (pat st')"
        "length (motion_commands (trace st')) =
           length (motion_commands (trace st1)) + (if known_type (pat st1) then length envs else 0)"
    by auto
  have "worker_loop sid (env # envs) st = Looping st'"
    using Cons.prems(2) w l by simp
  moreover have "evolves (pat st) (pat st')" using w2(1) l2(1) by (rule evolves_trans)
  ultimately show ?case using l2(2) w2(2,3) fl by auto
qed

lemma worker_iteration_flagged:
  assumes "interrupt env = None" and "stop_requested (pat st) \<or> paused (pat st)"
  shows "\<exists>st'. worker_iteration sid env st = (Continue, st') \<and> pat st' = pat st \<and>
           motion_commands (trace st') = motion_commands (trace st)"
  using assms by (auto simp: worker_iteration_def Let_def motion_commands_def)

lemma worker_loop_never_exits:
  assumes "undisturbed envs" and "running (pat st)" and "initialised (pat st)"
  shows "\<exists>st'. worker_loop sid envs st = Looping st' \<and> running (pat st') \<and>
           initialised (pat st')"
  using assms
proof (induction envs arbitrary: st)
  case Nil
  then show ?case by simp
next
  case (Cons env envs)
  from Cons.prems(1) have u: "interrupt env = None" "undisturbed envs"
    by (simp_all add: undisturbed_def)
  have "\<exists>st1. worker_iteration sid env st = (Continue, st1) \<and> running (pat st1) \<and>
          initialised (pat st1)"
  proof (cases "stop_requested (pat st) \<or> paused (pat st)")
    case True
    from worker_iteration_flagged [OF u(1) True, of sid] Cons.prems show ?thesis by auto
  next
    case False
    then have "\<not> stop_requested (pat st)" "\<not> paused (pat st)" by simp_all
    from worker_iteration_undisturbed [OF u(1) this Cons.prems(3), of sid] obtain st1 where
      "worker_iteration sid env st = (Continue, st1)" "evolves (pat st) (pat st1)" by blast
    with Cons.prems show ?thesis
      using evolves_flags evolves_initialised by blast
  qed
  then obtain st1 where w: "worker_iteration sid env st = (Continue, st1)"
    "running (pat st1)" "initialised (pat st1)" by blast
  from Cons.IH [OF u(2) w(2,3)] obtain st' where
    "worker_loop sid envs st1 = Looping st'" "running (pat st')" "initialised (pat st')" by blast
  with w(1) Cons.prems(2) show ?case by simp
qed

lemma observe_other: "interrupt env = Some j \<Longrightarrow> k \<noteq> j \<Longrightarrow> observe k env p = p"
  by (simp add: observe_def)

lemma observe_hit:
  "interrupt env = Some k \<Longrightarrow>
     observe k env p = p\<lparr>immediate_stop := True, emergency_stop := True, paused := True\<rparr>"
  by (simp add: observe_def)

lemma worker_iteration_step_failure:
  assumes "interrupt env = Some 5" and "\<not> stop_requested (pat st)" and "\<not> paused (pat st)"
      and "initialised (pat st)"
  shows "\<exists>st'. worker_iteration sid env st = (Continue, st') \<and>
           running (pat st') = running (pat st) \<and>
           motion_commands (trace st') = motion_commands (trace st) \<and>
           consecutive_failures st' =
             (if 5 \<le> consecutive_failures st + 1 then 0 else consecutive_failures st + 1)"
proof -
  note o = observe_other [OF assms(1)]
  obtain n0 p3 where c: "calculate_next_position (wave_term env) (pat st) = (n0, p3)"
    by (cases "calculate_next_position (wave_term env) (pat st)") auto
  note f1 = calculate_next_position_frame [OF c]
  have e3: "evolves (pat st) p3" using f1 by simp
  have i3: "initialised p3" using e3 assms(4) by (rule evolves_initialised)
  have d3: "direction p3 \<noteq> None" using i3 by (simp add: initialised_def)
  from apply_angle_constraints_frame [OF d3, of n0] obtain n1 p5 where
    a: "apply_angle_constraints p3 n0 = Returns (n1, p5)" and e5: "evolves p3 p5"
    by auto
  have e05: "evolves (pat st) p5" using e3 e5 by (rule evolves_trans)
  have s3: "\<not> stop_requested p3" using evolves_flags [OF e3] assms(2) by simp
  have s5: "\<not> stop_requested p5" using evolves_flags [OF e05] assms(2) by simp
  let ?tr = "trace st @ [AcquirePauseLock, ReleasePauseLock]"
  let ?p6 = "p5\<lparr>immediate_stop := True, emergency_stop := True, paused := True\<rparr>"
  let ?st6 = "st\<lparr>trace := ?tr, pat := ?p6\<rparr>"
  let ?st7 = "failure_path sid (recoveries env) ?st6"
  let ?st8 = "iteration_tail sid env ?st7"
  have m: "movement_stage sid env n1 (st\<lparr>trace := ?tr, pat := p5\<rparr>) = (Completed, ?st8)"
    by (cases st) (simp add: movement_stage_def stop_requested_def observe_hit [OF assms(1)])
  have b: "iteration_body sid env (st\<lparr>pat := pat st, trace := ?tr\<rparr>) = (Completed, ?st8)"
    using c a s3 s5 assms(2) m by (simp add: iteration_body_def o)
  have w: "worker_iteration sid env st = (Continue, ?st8)"
    using assms(2,3) b by (simp add: worker_iteration_def o)
  note f7 = failure_path_frame [of ?st6 sid "recoveries env"]
  note f8 = iteration_tail_frame [of ?st7 sid env]
  have "evolves ?p6 (pat ?st8)" using f7 f8 by (auto intro: evolves_trans)
  then have r: "running (pat ?st8) = running ?p6" using evolves_flags by blast
  have r2: "running ?p6 = running (pat st)" using evolves_flags [OF e05] by simp
  have mc: "motion_commands (trace ?st8) = motion_commands (trace st)"
    using f7 f8 by (simp add: motion_commands_def)
  have cf: "consecutive_failures ?st8 =
              (if 5 \<le> consecutive_failures st + 1 then 0 else consecutive_failures st + 1)"
    using f7 f8 by simp
  from w r r2 mc cf show ?thesis by metis
qed

lemma continuous_movement_worker_loop:
  "continuous_movement_worker sid rd envs p =
     worker_loop sid envs
       \<lparr>pat = fst (worker_init sid rd p), consecutive_failures = 0, step_count = 0,
        last_successful_position = None, trace = snd (worker_init sid rd p)\<rparr>"
  by (simp add: continuous_movement_worker_def split: prod.splits)

lemma undisturbed_replicate: "interrupt env = None \<Longrightarrow> undisturbed (replicate n env)"
  by (induction n) (simp_all add: undisturbed_def)

lemma worker_init_initialised: "initialised (fst (worker_init sid rd p))"
  by (auto simp: worker_init_def initialised_def Let_def split: option.splits call.splits)

lemma worker_init_running: "running (fst (worker_init sid rd p)) = running p"
  by (auto simp: worker_init_def Let_def split: option.splits call.splits)

lemma evolves_settings:
  "evolves p p' \<Longrightarrow>
     ptype p' = ptype p \<and> speed p' = speed p \<and> acceleration p' = acceleration p \<and>
     constraints_enabled p' = constraints_enabled p \<and> center_position p' = center_position p"
  by (cases p; cases p') (simp add: evolves_def same_settings_def)

lemma worker_init_frame:
  "ptype (fst (worker_init sid rd p)) = ptype p \<and>
   paused (fst (worker_init sid rd p)) = paused p \<and>
   stop_requested (fst (worker_init sid rd p)) = stop_requested p \<and>
   constraints_enabled (fst (worker_init sid rd p)) = constraints_enabled p"
  by (auto simp: worker_init_def Let_def stop_requested_def split: option.splits call.splits)

lemma iteration_tail_first:
  "step_count st = 0 \<Longrightarrow>
     iteration_tail sid env st =
       st\<lparr>step_count := 1,
          trace := trace st @ [Sleep (if ptype (pat st) = ''rotation'' then 50 else 100)]\<rparr>"
  by (simp add: iteration_tail_def Let_def)

lemma execute_step_first_command:
  assumes "calculate_next_position (wave_term env) q = (n0, p3)"
  shows "snd (execute_step sid p3 n0 wr) = first_command sid env q"
proof -
  note f = calculate_next_position_frame [OF assms]
  then have e: "evolves q p3" and r: "\<not> (n0 < 0 \<or> n0 > 4095)" by auto
  note s = evolves_settings [OF e]
  consider "ptype q = ''sweep''" | "ptype q = ''rotation''" | "ptype q = ''wave''"
    | "ptype q \<noteq> ''sweep''" "ptype q \<noteq> ''rotation''" "ptype q \<noteq> ''wave''"
    by blast
  then show ?thesis
  proof cases
    case 1
    then have n: "n0 = fst (calculate_sweep_position q
                    (if get_or (current_position q) 2048 < 0 \<or> get_or (current_position q) 2048 > 4095
                     then 2048 else get_or (current_position q) 2048))"
      using assms by (simp add: calculate_next_position_def Let_def)
    have "snd (execute_step sid p3 n0 wr) =
            [WritePosEx sid n0 (max 0 (min 1023 (speed q))) (max 0 (min 254 (acceleration q)))]"
      using 1 s r by (simp add: execute_step_def execute_sweep_step_def Let_def)
    also have "\<dots> = first_command sid env q"
      using 1 n by (simp add: first_command_def Let_def)
    finally show ?thesis .
  next
    case 2
    then show ?thesis
      using s by (simp add: execute_step_def execute_rotation_step_def first_command_def Let_def)
  next
    case 3
    then have n: "n0 = clamp_position (get_or (center_position q) 2048 + wave_term env)"
      using assms by (auto simp: calculate_next_position_def calculate_wave_position_def Let_def)
    have "snd (execute_step sid p3 n0 wr) =
            [WritePosEx sid n0 (max 0 (min 1023 (speed q))) (max 0 (min 254 (acceleration q)))]"
      using 3 s r by (simp add: execute_step_def execute_wave_step_def Let_def)
    also have "\<dots> = first_command sid env q"
      using 3 n by (simp add: first_command_def Let_def)
    finally show ?thesis .
  next
    case 4
    then show ?thesis
      using s by (simp add: execute_step_def first_command_def Let_def)
  qed
qed

lemma worker_iteration_first_pass:
  assumes "interrupt env = None" and "\<not> stop_requested (pat st)" and "\<not> paused (pat st)"
      and "initialised (pat st)" and "\<not> constraints_enabled (pat st)" and "step_count st = 0"
  shows "\<exists>st'. worker_iteration sid env st = (Continue, st') \<and>
           trace st' =
             trace st @ [AcquirePauseLock, ReleasePauseLock] @ first_command sid env (pat st) @
             [Sleep (if ptype (pat st) = ''rotation'' then 50 else 100)] \<and>
           running (pat st') = running (pat st)"
proof -
  let ?tr = "trace st @ [AcquirePauseLock, ReleasePauseLock]"
  obtain n0 p3 where c: "calculate_next_position (wave_term env) (pat st) = (n0, p3)"
    by (cases "calculate_next_position (wave_term env) (pat st)") auto
  note f1 = calculate_next_position_frame [OF c]
  have e3: "evolves (pat st) p3" using f1 by simp
  note s3 = evolves_settings [OF e3]
  have i3: "initialised p3" using e3 assms(4) by (rule evolves_initialised)
  have st3: "\<not> stop_requested p3" using evolves_flags [OF e3] assms(2) by simp
  have a: "apply_angle_constraints p3 n0 = Returns (n0, p3)"
    using s3 assms(5) by (simp add: apply_angle_constraints_def)
  obtain p4 tr4 where x: "execute_step sid p3 n0 (step_write env) = (p4, tr4)"
    by (cases "execute_step sid p3 n0 (step_write env)") auto
  note f4 = execute_step_frame [OF x]
  have t4: "tr4 = first_command sid env (pat st)"
    using execute_step_first_command [OF c, of sid "step_write env"] x by simp
  have e34: "evolves p3 p4" using f4 by simp
  let ?st4 = "st\<lparr>trace := ?tr @ tr4, pat := p4\<rparr>"
  have i4: "initialised (pat ?st4)" using e34 i3 by (auto intro: evolves_initialised)
  from success_path_frame [OF i4, of n0] obtain st5 where
    s: "success_path n0 ?st4 = (Completed, st5)" and
    s5: "evolves p4 (pat st5)" "trace st5 = ?tr @ tr4" "step_count st5 = step_count st"
    by auto
  have e05: "evolves (pat st) (pat st5)"
    using e3 e34 s5(1) by (blast intro: evolves_trans)
  note s05 = evolves_settings [OF e05]
  have tail: "iteration_tail sid env st5 =
                st5\<lparr>step_count := 1,
                    trace := trace st5 @ [Sleep (if ptype (pat st5) = ''rotation'' then 50 else 100)]\<rparr>"
    using s5(3) assms(6) by (simp add: iteration_tail_first)
  have m: "movement_stage sid env n0 (st\<lparr>trace := ?tr, pat := p3\<rparr>) =
             (Completed, iteration_tail sid env st5)"
    using assms(1) st3 x s by (cases st) (simp add: movement_stage_def)
  have b: "iteration_body sid env (st\<lparr>pat := pat st, trace := ?tr\<rparr>) =
             (Completed, iteration_tail sid env st5)"
    using assms(1,2) c a st3 m by (simp add: iteration_body_def)
  have w: "worker_iteration sid env st = (Continue, iteration_tail sid env st5)"
    using assms(1,2,3) b by (simp add: worker_iteration_def)
  have "trace (iteration_tail sid env st5) =
          trace st @ [AcquirePauseLock, ReleasePauseLock] @ first_command sid env (pat st) @
          [Sleep (if ptype (pat st) = ''rotation'' then 50 else 100)]"
    using tail s5(2) t4 s05 by simp
  moreover have "running (pat (iteration_tail sid env st5)) = running (pat st)"
    using tail evolves_flags [OF e05] by simp
  ultimately show ?thesis using w by blast
qed



section \<open>Properties of the per-servo worker\<close>

text \<open>
  C1. The per-servo worker never compares the cycle count with a target. The start
  request asks for two cycles; \<^verbatim>\<open>start_continuous_movement\<close> drops that key, and the
  loop reads no \<^verbatim>\<open>cycles\<close> key either. On a servo that answers every call the cycle
  count is 2 after six passes, and the worker is still looping with \<^verbatim>\<open>running\<close> set and
  sends two more setpoints in passes seven and eight. Whatever value the \<^verbatim>\<open>cycles\<close>
  key of the pattern has, the worker is still looping after any number of passes.
\<close>

theorem worker_runs_past_cycle_target:
  "cfg_cycles sweep_request = Some 2
   \<and> (case sweep_run 6 of
         Looping st \<Rightarrow> running (pat st) \<and> cycle_count (pat st) = Some 2
       | Exited st \<Rightarrow> False)
   \<and> (case sweep_run 8 of
         Looping st \<Rightarrow>
           running (pat st) \<and> cycle_count (pat st) = Some 2 \<and>
           motion_commands (trace st) =
             [WritePosEx 1 1000 1000 50, WritePosEx 1 2000 1000 50, WritePosEx 1 3000 1000 50,
              WritePosEx 1 4000 1000 50, WritePosEx 1 4095 1000 50, WritePosEx 1 4095 1000 50,
              WritePosEx 1 3095 1000 50, WritePosEx 1 2095 1000 50]
       | Exited st \<Rightarrow> False)
   \<and> (\<forall>n c. \<exists>st.
         continuous_movement_worker 1 (Returns (2048, COMM_SUCCESS)) (replicate n quiet_env)
           ((start_pattern False sweep_request)\<lparr>cycles := c\<rparr>) = Looping st \<and>
         running (pat st))"
proof (intro conjI allI)
  show "cfg_cycles sweep_request = Some 2" by (simp add: sweep_request_def)
  show "case sweep_run 6 of
          Looping st \<Rightarrow> running (pat st) \<and> cycle_count (pat st) = Some 2
        | Exited st \<Rightarrow> False"
    by code_simp
  show "case sweep_run 8 of
         Looping st \<Rightarrow>
           running (pat st) \<and> cycle_count (pat st) = Some 2 \<and>
           motion_commands (trace st) =
             [WritePosEx 1 1000 1000 50, WritePosEx 1 2000 1000 50, WritePosEx 1 3000 1000 50,
              WritePosEx 1 4000 1000 50, WritePosEx 1 4095 1000 50, WritePosEx 1 4095 1000 50,
              WritePosEx 1 3095 1000 50, WritePosEx 1 2095 1000 50]
       | Exited st \<Rightarrow> False"
    by code_simp
next
  fix n :: nat and c :: "int option"
  let ?rd = "Returns (2048, COMM_SUCCESS) :: (int \<times> comm_result) call"
  let ?p = "(start_pattern False sweep_request)\<lparr>cycles := c\<rparr>"
  let ?st = "\<lparr>pat = fst (worker_init 1 ?rd ?p), consecutive_failures = 0, step_count = 0,
             last_successful_position = None, trace = snd (worker_init 1 ?rd ?p)\<rparr>"
  have u: "undisturbed (replicate n quiet_env)"
    by (rule undisturbed_replicate) (simp add: quiet_env_def)
  have r: "running (pat ?st)"
    by (simp add: worker_init_running start_pattern_def create_pattern_def sweep_request_def
                  get_or_def)
  have i: "initialised (pat ?st)" by (simp add: worker_init_initialised)
  from worker_loop_never_exits [OF u r i, of 1] obtain st' where
    "worker_loop 1 (replicate n quiet_env) ?st = Looping st'" "running (pat st')" by blast
  then show "\<exists>st. continuous_movement_worker 1 ?rd (replicate n quiet_env) ?p = Looping st \<and>
               running (pat st)"
    by (simp add: continuous_movement_worker_loop)
qed

text \<open>
  C3. The start request asks for a sweep between 1000 and 3000 with angle limits
  disabled. The pattern keeps these bounds under \<^verbatim>\<open>min_position\<close> and
  \<^verbatim>\<open>max_position\<close>, which the worker never reads; the worker fills in
  \<^verbatim>\<open>start_position = 0\<close> and \<^verbatim>\<open>end_position = 4095\<close>. The recorded position starts
  at 0, below the requested lower bound, and the fourth setpoint sent is 4000, above the
  requested upper bound.
\<close>

theorem sweep_ignores_requested_bounds:
  "min_position (start_pattern False sweep_request) = Some 1000
   \<and> max_position (start_pattern False sweep_request) = Some 3000
   \<and> start_position (start_pattern False sweep_request) = None
   \<and> end_position (start_pattern False sweep_request) = None
   \<and> current_position (start_pattern False sweep_request) = Some 0
   \<and> \<not> constraints_enabled (start_pattern False sweep_request)
   \<and> (case sweep_run 4 of
         Looping st \<Rightarrow>
           start_position (pat st) = Some 0 \<and> end_position (pat st) = Some 4095 \<and>
           current_position (pat st) = Some 4000 \<and>
           motion_commands (trace st) =
             [WritePosEx 1 1000 1000 50, WritePosEx 1 2000 1000 50, WritePosEx 1 3000 1000 50,
              WritePosEx 1 4000 1000 50]
       | Exited st \<Rightarrow> False)"
  by code_simp

text \<open>
  C4. One touch of the end boundary adds two to the cycle count. In pass five the
  setpoint reaches 4095 with the direction still forward, and the worker's own update
  counts a cycle; in pass six \<^verbatim>\<open>_calculate_sweep_position\<close> finds the position at the
  boundary, reverses the direction, snaps the setpoint to 4095 and counts a cycle again.
  Pass seven moves away from the boundary with the count at 2.
\<close>

theorem sweep_boundary_counted_twice:
  "(case sweep_run 4 of
      Looping st \<Rightarrow>
        current_position (pat st) = Some 4000 \<and> direction (pat st) = Some 1 \<and>
        cycle_count (pat st) = Some 0
    | Exited st \<Rightarrow> False)
   \<and> (case sweep_run 5 of
         Looping st \<Rightarrow>
           current_position (pat st) = Some 4095 \<and> direction (pat st) = Some 1 \<and>
           cycle_count (pat st) = Some 1
       | Exited st \<Rightarrow> False)
   \<and> (case sweep_run 6 of
         Looping st \<Rightarrow>
           current_position (pat st) = Some 4095 \<and> direction (pat st) = Some (- 1) \<and>
           cycle_count (pat st) = Some 2
       | Exited st \<Rightarrow> False)
   \<and> (case sweep_run 7 of
         Looping st \<Rightarrow>
           current_position (pat st) = Some 3095 \<and> direction (pat st) = Some (- 1) \<and>
           cycle_count (pat st) = Some 2
       | Exited st \<Rightarrow> False)"
  by code_simp

text \<open>
  C2. Communication failure alone never ends the loop of the per-servo worker. Whatever
  the bus answers in each pass (every write, read, ping may fail or raise), as long as no
  request interferes the worker that entered a pass with \<^verbatim>\<open>running\<close> set is still
  looping with \<^verbatim>\<open>running\<close> set after any number of passes, and when it is neither
  stopped nor paused it sends one motion command in every pass. The failure path of a
  pass leaves \<^verbatim>\<open>running\<close> as it is and sets the consecutive-failure counter to zero
  once it reaches five, whether the recovery succeeded or not; a pass that takes the
  failure path continues the loop. The in-band health check answers true on every path
  and leaves \<^verbatim>\<open>running\<close> as it is, and so does the exception handler of a pass, which
  also resets the counter at five.
\<close>

theorem communication_failure_never_stops_worker:
  "(undisturbed envs \<and> running (pat st) \<and> initialised (pat st) \<longrightarrow>
      (\<exists>st'. worker_loop sid envs st = Looping st' \<and> running (pat st')))
   \<and> (undisturbed envs \<and> running (pat st) \<and> initialised (pat st) \<and> known_type (pat st) \<and>
       \<not> stop_requested (pat st) \<and> \<not> paused (pat st) \<longrightarrow>
      (\<exists>st'. worker_loop sid envs st = Looping st' \<and> running (pat st') \<and>
         length (motion_commands (trace st')) =
           length (motion_commands (trace st)) + length envs))
   \<and> running (pat (failure_path sid renv st)) = running (pat st)
   \<and> consecutive_failures (failure_path sid renv st) =
       (if 5 \<le> consecutive_failures st + 1 then 0 else consecutive_failures st + 1)
   \<and> (interrupt env = Some 5 \<and> \<not> stop_requested (pat st) \<and> \<not> paused (pat st) \<and>
       initialised (pat st) \<longrightarrow>
      (\<exists>st'. worker_iteration sid env st = (Continue, st') \<and>
         running (pat st') = running (pat st) \<and>
         consecutive_failures st' =
           (if 5 \<le> consecutive_failures st + 1 then 0 else consecutive_failures st + 1)))
   \<and> fst (check_communication_health_during_movement sid rd renv p)
   \<and> running (fst (snd (check_communication_health_during_movement sid rd renv p))) = running p
   \<and> running (pat (exception_handler st)) = running (pat st)
   \<and> consecutive_failures (exception_handler st) =
       (if 5 \<le> consecutive_failures st + 1 then 0 else consecutive_failures st + 1)"
proof (intro conjI impI)
  assume "undisturbed envs \<and> running (pat st) \<and> initialised (pat st)"
  then show "\<exists>st'. worker_loop sid envs st = Looping st' \<and> running (pat st')"
    using worker_loop_never_exits [of envs st sid] by blast
next
  assume a: "undisturbed envs \<and> running (pat st) \<and> initialised (pat st) \<and> known_type (pat st) \<and>
       \<not> stop_requested (pat st) \<and> \<not> paused (pat st)"
  then obtain st' where
    l: "worker_loop sid envs st = Looping st'" "evolves (pat st) (pat st')"
       "length (motion_commands (trace st')) =
          length (motion_commands (trace st)) + (if known_type (pat st) then length envs else 0)"
    using worker_loop_undisturbed [of envs st sid] by blast
  from l(2) a have "running (pat st')" using evolves_flags by blast
  with l a show "\<exists>st'. worker_loop sid envs st = Looping st' \<and> running (pat st') \<and>
         length (motion_commands (trace st')) =
           length (motion_commands (trace st)) + length envs"
    by simp
next
  show "running (pat (failure_path sid renv st)) = running (pat st)"
    using failure_path_frame [of st sid renv] evolves_flags by blast
next
  show "consecutive_failures (failure_path sid renv st) =
       (if 5 \<le> consecutive_failures st + 1 then 0 else consecutive_failures st + 1)"
    using failure_path_frame [of st sid renv] by simp
next
  assume "interrupt env = Some 5 \<and> \<not> stop_requested (pat st) \<and> \<not> paused (pat st) \<and>
       initialised (pat st)"
  then show "\<exists>st'. worker_iteration sid env st = (Continue, st') \<and>
         running (pat st') = running (pat st) \<and>
         consecutive_failures st' =
           (if 5 \<le> consecutive_failures st + 1 then 0 else consecutive_failures st + 1)"
    using worker_iteration_step_failure [of env st sid] by blast
next
  obtain hs p' tr where
    h: "check_communication_health_during_movement sid rd renv p = (hs, p', tr)"
    by (cases "check_communication_health_during_movement sid rd renv p") auto
  note f = check_health_frame [OF h]
  show "fst (check_communication_health_during_movement sid rd renv p)"
    using h f by simp
  show "running (fst (snd (check_communication_health_during_movement sid rd renv p))) = running p"
    using h f evolves_flags [of p p'] by simp
next
  show "running (pat (exception_handler st)) = running (pat st)"
    by (simp add: exception_handler_def Let_def)
next
  show "consecutive_failures (exception_handler st) =
       (if 5 \<le> consecutive_failures st + 1 then 0 else consecutive_failures st + 1)"
    by (simp add: exception_handler_def Let_def)
qed

theorem communication_failure_never_stops_worker_witness:
  "(case worker_loop 1 [dead_env, dead_env, dead_env] sweep_start of
      Looping st' \<Rightarrow> running (pat st') \<and> length (motion_commands (trace st')) = 3
    | Exited st' \<Rightarrow> False)
   \<and> consecutive_failures (failure_path 1 (\<lambda>k. dead_recovery) sweep_failing) = 0
   \<and> (case worker_iteration 1 pause_arrives sweep_failing of
         (Continue, st') \<Rightarrow> running (pat st') \<and> consecutive_failures st' = 0
       | (Break, st') \<Rightarrow> False)"
proof -
  have h1: "undisturbed [dead_env, dead_env, dead_env] \<and> running (pat sweep_start) \<and>
            initialised (pat sweep_start) \<and> known_type (pat sweep_start) \<and>
            \<not> stop_requested (pat sweep_start) \<and> \<not> paused (pat sweep_start)"
    by code_simp
  have h2: "interrupt pause_arrives = Some 5 \<and> \<not> stop_requested (pat sweep_failing) \<and>
            \<not> paused (pat sweep_failing) \<and> initialised (pat sweep_failing)"
    by code_simp
  have r: "running (pat sweep_failing)" "consecutive_failures sweep_failing = 4"
          "motion_commands (trace sweep_start) = []"
    by code_simp+
  note t1 = communication_failure_never_stops_worker
              [where envs = "[dead_env, dead_env, dead_env]" and st = sweep_start and sid = 1]
  note t2 = communication_failure_never_stops_worker
              [where st = sweep_failing and sid = 1 and renv = "\<lambda>k. dead_recovery"
                 and env = pause_arrives]
  from t1 h1 obtain st' where
    a: "worker_loop 1 [dead_env, dead_env, dead_env] sweep_start = Looping st'"
       "running (pat st')"
       "length (motion_commands (trace st')) =
          length (motion_commands (trace sweep_start)) + length [dead_env, dead_env, dead_env]"
    by blast
  from a(3) r(3) have a3: "length (motion_commands (trace st')) = 3" by simp
  from t2 h2 obtain st'' where
    b: "worker_iteration 1 pause_arrives sweep_failing = (Continue, st'')"
       "running (pat st'') = running (pat sweep_failing)"
       "consecutive_failures st'' =
          (if 5 \<le> consecutive_failures sweep_failing + 1 then 0
           else consecutive_failures sweep_failing + 1)"
    by blast
  from b(2,3) r have b2: "running (pat st'')" "consecutive_failures st'' = 0" by simp_all
  from t2 have "consecutive_failures (failure_path 1 (\<lambda>k. dead_recovery) sweep_failing) =
                  (if 5 \<le> consecutive_failures sweep_failing + 1 then 0
                   else consecutive_failures sweep_failing + 1)"
    by blast
  with r have c: "consecutive_failures (failure_path 1 (\<lambda>k. dead_recovery) sweep_failing) = 0"
    by simp
  from a(1,2) a3 b(1) b2 c show ?thesis by (simp del: worker_loop.simps)
qed

text \<open>
  C6, as stated, fails: a worker started on the pattern of a start request issues no
  position read. The pattern carries \<^verbatim>\<open>current_position = 0\<close>, the worker keeps it,
  and the first setpoint (1000) is computed from it although the servo would report 2048.
\<close>

theorem worker_start_keeps_record_position:
  "snd (worker_init 1 (Returns (2048, COMM_SUCCESS)) (start_pattern False sweep_request)) = []
   \<and> current_position
        (fst (worker_init 1 (Returns (2048, COMM_SUCCESS)) (start_pattern False sweep_request)))
       = Some 0
   \<and> (case sweep_run 1 of
         Looping st \<Rightarrow>
           trace st =
             [AcquirePauseLock, ReleasePauseLock, WritePosEx 1 1000 1000 50, Sleep 100]
       | Exited st \<Rightarrow> False)"
  by code_simp

text \<open>
  C6, amended. When the pattern has no \<^verbatim>\<open>current_position\<close> at worker start, the
  worker issues one position read before its loop and seeds the position from it, with
  2048 when the read fails or raises. When the pattern already has a
  \<^verbatim>\<open>current_position\<close>, the worker issues no read and keeps that value. With angle
  constraints disabled and no stop or pause in effect, the first pass of the loop follows
  the seeding and sends the first command of the pattern so seeded: a sweep steps from the
  seeded position, or from 2048 when that position lies outside [0, 4095]; a wave goes to
  its centre plus the sine term and a rotation gets a speed command, whatever the
  position.
\<close>

theorem worker_init_seeds_missing_position:
  "(current_position p = None \<longrightarrow>
      snd (worker_init sid rd p) = [ReadPos sid] \<and>
      current_position (fst (worker_init sid rd p)) =
        Some (case rd of
                Raises \<Rightarrow> 2048
              | Returns (position, r) \<Rightarrow> if r = COMM_SUCCESS then position else 2048))
   \<and> (current_position p = Some v \<longrightarrow>
      snd (worker_init sid rd p) = [] \<and>
      current_position (fst (worker_init sid rd p)) = Some v)
   \<and> (running p \<and> \<not> stop_requested p \<and> \<not> paused p \<and> \<not> constraints_enabled p \<and>
       interrupt env = None \<longrightarrow>
      (\<exists>st'. continuous_movement_worker sid rd [env] p = Looping st' \<and>
         trace st' =
           snd (worker_init sid rd p) @ [AcquirePauseLock, ReleasePauseLock] @
           first_command sid env (fst (worker_init sid rd p)) @
           [Sleep (if ptype p = ''rotation'' then 50 else 100)]))"
proof (intro conjI impI)
  assume "current_position p = None"
  then show "snd (worker_init sid rd p) = [ReadPos sid]"
    by (auto simp: worker_init_def Let_def split: call.splits)
next
  assume "current_position p = None"
  then show "current_position (fst (worker_init sid rd p)) =
        Some (case rd of
                Raises \<Rightarrow> 2048
              | Returns (position, r) \<Rightarrow> if r = COMM_SUCCESS then position else 2048)"
    by (auto simp: worker_init_def Let_def split: call.splits)
next
  assume "current_position p = Some v"
  then show "snd (worker_init sid rd p) = []"
    by (auto simp: worker_init_def Let_def)
next
  assume "current_position p = Some v"
  then show "current_position (fst (worker_init sid rd p)) = Some v"
    by (auto simp: worker_init_def Let_def)
next
  assume a: "running p \<and> \<not> stop_requested p \<and> \<not> paused p \<and> \<not> constraints_enabled p \<and>
       interrupt env = None"
  let ?q = "fst (worker_init sid rd p)"
  let ?st = "\<lparr>pat = ?q, consecutive_failures = 0, step_count = 0,
              last_successful_position = None, trace = snd (worker_init sid rd p)\<rparr>"
  note f = worker_init_frame [of sid rd p]
  have h: "interrupt env = None" "\<not> stop_requested (pat ?st)" "\<not> paused (pat ?st)"
          "initialised (pat ?st)" "\<not> constraints_enabled (pat ?st)" "step_count ?st = 0"
    using a f by (simp_all add: worker_init_initialised)
  from worker_iteration_first_pass [OF h, of sid] obtain st' where
    w: "worker_iteration sid env ?st = (Continue, st')"
       "trace st' =
          trace ?st @ [AcquirePauseLock, ReleasePauseLock] @ first_command sid env (pat ?st) @
          [Sleep (if ptype (pat ?st) = ''rotation'' then 50 else 100)]"
       "running (pat st') = running (pat ?st)"
    by blast
  have r: "running (pat ?st)" using a by (simp add: worker_init_running)
  have "worker_loop sid [env] ?st = Looping st'"
    using r w(1,3) by simp
  then have "continuous_movement_worker sid rd [env] p = Looping st'"
    by (simp add: continuous_movement_worker_loop)
  moreover have "trace st' =
           snd (worker_init sid rd p) @ [AcquirePauseLock, ReleasePauseLock] @
           first_command sid env (fst (worker_init sid rd p)) @
           [Sleep (if ptype p = ''rotation'' then 50 else 100)]"
    using w(2) f by simp
  ultimately show "\<exists>st'. continuous_movement_worker sid rd [env] p = Looping st' \<and>
         trace st' =
           snd (worker_init sid rd p) @ [AcquirePauseLock, ReleasePauseLock] @
           first_command sid env (fst (worker_init sid rd p)) @
           [Sleep (if ptype p = ''rotation'' then 50 else 100)]"
    by blast
qed

theorem worker_init_seeds_missing_position_witness:
  "snd (worker_init 1 (Returns (1500, COMM_SUCCESS)) blank_sweep) = [ReadPos 1]
   \<and> current_position (fst (worker_init 1 (Returns (1500, COMM_SUCCESS)) blank_sweep)) = Some 1500
   \<and> current_position (fst (worker_init 1 (Returns (1500, COMM_RX_TIMEOUT)) blank_sweep)) = Some 2048
   \<and> snd (worker_init 1 (Returns (1500, COMM_SUCCESS)) (start_pattern False sweep_request)) = []
   \<and> current_position
        (fst (worker_init 1 (Returns (1500, COMM_SUCCESS)) (start_pattern False sweep_request)))
       = Some 0
   \<and> (case continuous_movement_worker 1 (Returns (1500, COMM_SUCCESS)) [quiet_env] blank_sweep of
         Looping st \<Rightarrow>
           trace st =
             [ReadPos 1, AcquirePauseLock, ReleasePauseLock, WritePosEx 1 2500 1000 50, Sleep 100]
       | Exited st \<Rightarrow> False)
   \<and> (case continuous_movement_worker 1 (Returns (5000, COMM_SUCCESS)) [quiet_env] blank_sweep of
         Looping st \<Rightarrow>
           trace st =
             [ReadPos 1, AcquirePauseLock, ReleasePauseLock, WritePosEx 1 3048 1000 50, Sleep 100]
       | Exited st \<Rightarrow> False)"
proof -
  have n: "current_position blank_sweep = None" by (simp add: blank_sweep_def)
  have s: "current_position (start_pattern False sweep_request) = Some 0" by code_simp
  have h: "running blank_sweep \<and> \<not> stop_requested blank_sweep \<and> \<not> paused blank_sweep \<and>
           \<not> constraints_enabled blank_sweep \<and> interrupt quiet_env = None"
    by code_simp
  have v: "ptype blank_sweep = ''sweep''"
          "first_command 1 quiet_env (fst (worker_init 1 (Returns (1500, COMM_SUCCESS)) blank_sweep))
             = [WritePosEx 1 2500 1000 50]"
          "first_command 1 quiet_env (fst (worker_init 1 (Returns (5000, COMM_SUCCESS)) blank_sweep))
             = [WritePosEx 1 3048 1000 50]"
    by code_simp+
  note t1 = worker_init_seeds_missing_position
              [where p = blank_sweep and sid = 1 and rd = "Returns (1500, COMM_SUCCESS)"
                 and env = quiet_env]
  note t2 = worker_init_seeds_missing_position
              [where p = blank_sweep and sid = 1 and rd = "Returns (1500, COMM_RX_TIMEOUT)"]
  note t3 = worker_init_seeds_missing_position
              [where p = "start_pattern False sweep_request" and sid = 1 and v = 0
                 and rd = "Returns (1500, COMM_SUCCESS)"]
  note t4 = worker_init_seeds_missing_position
              [where p = blank_sweep and sid = 1 and rd = "Returns (5000, COMM_SUCCESS)"
                 and env = quiet_env]
  from t1 n have a: "snd (worker_init 1 (Returns (1500, COMM_SUCCESS)) blank_sweep) = [ReadPos 1]"
    "current_position (fst (worker_init 1 (Returns (1500, COMM_SUCCESS)) blank_sweep)) = Some 1500"
    by simp_all
  from t2 n have b:
    "current_position (fst (worker_init 1 (Returns (1500, COMM_RX_TIMEOUT)) blank_sweep)) = Some 2048"
    by simp
  from t3 s have c:
    "snd (worker_init 1 (Returns (1500, COMM_SUCCESS)) (start_pattern False sweep_request)) = []"
    "current_position
       (fst (worker_init 1 (Returns (1500, COMM_SUCCESS)) (start_pattern False sweep_request)))
     = Some 0"
    by simp_all
  from t4 n have a4: "snd (worker_init 1 (Returns (5000, COMM_SUCCESS)) blank_sweep) = [ReadPos 1]"
    by simp
  from t1 h obtain st1 where
    d: "continuous_movement_worker 1 (Returns (1500, COMM_SUCCESS)) [quiet_env] blank_sweep = Looping st1"
       "trace st1 =
          snd (worker_init 1 (Returns (1500, COMM_SUCCESS)) blank_sweep) @
          [AcquirePauseLock, ReleasePauseLock] @
          first_command 1 quiet_env (fst (worker_init 1 (Returns (1500, COMM_SUCCESS)) blank_sweep)) @
          [Sleep (if ptype blank_sweep = ''rotation'' then 50 else 100)]"
    by blast
  from t4 h obtain st4 where
    e: "continuous_movement_worker 1 (Returns (5000, COMM_SUCCESS)) [quiet_env] blank_sweep = Looping st4"
       "trace st4 =
          snd (worker_init 1 (Returns (5000, COMM_SUCCESS)) blank_sweep) @
          [AcquirePauseLock, ReleasePauseLock] @
          first_command 1 quiet_env (fst (worker_init 1 (Returns (5000, COMM_SUCCESS)) blank_sweep)) @
          [Sleep (if ptype blank_sweep = ''rotation'' then 50 else 100)]"
    by blast
  from d(2) a(1) v have d2: "trace st1 =
      [ReadPos 1, AcquirePauseLock, ReleasePauseLock, WritePosEx 1 2500 1000 50, Sleep 100]"
    by simp
  from e(2) a4 v have e2: "trace st4 =
      [ReadPos 1, AcquirePauseLock, ReleasePauseLock, WritePosEx 1 3048 1000 50, Sleep 100]"
    by simp
  from a b c d(1) d2 e(1) e2 show ?thesis by simp
qed

section \<open>Properties of pause, group sync write and disconnect\<close>

lemma pause_hold_cases:
  "pause_hold sid p env =
     (if ptype p = ''rotation'' then
        (if pz_write_spec env = Returns COMM_SUCCESS
         then (None, [WriteSpec sid 0 50, Write1ByteTxRx sid STS_TORQUE_ENABLE 1])
         else (Some (case pz_write_spec env of Raises \<Rightarrow> HoldRaised
                     | Returns r \<Rightarrow> SpeedZeroFailed r), [WriteSpec sid 0 50]))
      else
        (if pz_torque env = Returns COMM_SUCCESS
         then (None, [ReadPos sid, WritePosEx sid (hold_position env) 0 0,
                      Write1ByteTxRx sid STS_TORQUE_ENABLE 1])
         else (Some (case pz_torque env of Raises \<Rightarrow> HoldRaised
                     | Returns r \<Rightarrow> EnableTorqueFailed r),
               [ReadPos sid, WritePosEx sid (hold_position env) 0 0,
                Write1ByteTxRx sid STS_TORQUE_ENABLE 1])))"
  by (auto simp: pause_hold_def Let_def split: call.splits)

lemma pause_one_running:
  "0 \<le> sid \<Longrightarrow> sid \<le> 253 \<Longrightarrow> acc_patterns acc sid = Some p \<Longrightarrow> running p \<Longrightarrow>
     pause_one acc (IntArg sid, env) = pause_running sid p env acc"
  by (simp add: pause_one_def)

lemma sync_add_all_ok:
  "\<not> any_add_raises data \<Longrightarrow>
     sync_add_all data added failed tr lg =
       (Some (added @ accepted_ids data, failed @ refused_ids data),
        tr @ add_calls data, lg @ add_logs data)"
  by (induction data arbitrary: added failed tr lg) (auto split: call.splits)

lemma sync_add_all_raise:
  "any_add_raises data \<Longrightarrow>
     \<exists>tr' lg'. sync_add_all data added failed tr lg = (None, tr @ tr', lg @ lg') \<and>
        TxPacket \<notin> set tr'"
proof (induction data arbitrary: added failed tr lg)
  case Nil
  then show ?case by simp
next
  case (Cons x data)
  obtain i pos s a ans where x: "x = (i, pos, s, a, ans)" by (cases x) auto
  show ?case
  proof (cases ans)
    case Raises
    with x show ?thesis by auto
  next
    case (Returns ok)
    with Cons.prems x have r: "any_add_raises data" by simp
    show ?thesis
    proof (cases ok)
      case True
      from Cons.IH [OF r, of "added @ [i]" failed "tr @ [SyncWritePosEx i pos s a]"
                       "lg @ [LogAdded i]"]
      show ?thesis using x Returns True by auto
    next
      case False
      from Cons.IH [OF r, of added "failed @ [i]" "tr @ [SyncWritePosEx i pos s a]"
                       "lg @ [LogAddFailed i]"]
      show ?thesis using x Returns False by auto
    qed
  qed
qed

lemma add_calls_no_tx: "TxPacket \<notin> set (add_calls data)"
  by (induction data) auto

lemma logged_added_add_logs: "logged_added (add_logs data @ rest) = accepted_ids data @ logged_added rest"
  by (induction data) auto

lemma sync_transmit_result:
  "fst (sync_transmit tx added failed) = COMM_SUCCESS \<longleftrightarrow>
     (tx 0 = Returns COMM_SUCCESS \<or> (tx 0 \<noteq> Raises \<and> tx 1 = Returns COMM_SUCCESS))"
  by (auto simp: sync_transmit_def split: call.splits)

lemma sync_transmit_trace:
  "fst (snd (sync_transmit tx added failed)) =
     (if tx 0 = Returns COMM_SUCCESS \<or> tx 0 = Raises then [TxPacket]
      else [TxPacket, Sleep 50, TxPacket])"
  by (auto simp: sync_transmit_def split: call.splits)

lemma sync_transmit_log:
  "logged_added (snd (snd (sync_transmit tx added failed))) = [] \<and>
   (fst (sync_transmit tx added failed) = COMM_SUCCESS \<longrightarrow>
      LogExecuted added \<in> set (snd (snd (sync_transmit tx added failed))))"
  by (auto simp: sync_transmit_def split: call.splits)

text \<open>
  C5, as stated, fails: the sequence of a successful pause is not exactly the one the
  claim lists. Pausing the rotating servo 1 on a bus that answers every call succeeds, and
  between the torque write and the clearing of \<^verbatim>\<open>emergency_stop\<close> the controller
  sleeps another 50 ms.
\<close>

theorem pause_sequence_has_settle_wait:
  "fst (pause_continuous_movement moving_controller [(IntArg 1, pause_answered)]) =
     PauseReport True [PauseOk 1] 1 1
   \<and> snd (snd (pause_continuous_movement moving_controller [(IntArg 1, pause_answered)])) =
       [AcquirePauseLock, SetFlag 1 Immediate_stop True, SetFlag 1 Emergency_stop True,
        SetFlag 1 Paused True, ReleasePauseLock, Sleep 100, WriteSpec 1 0 50,
        Write1ByteTxRx 1 STS_TORQUE_ENABLE 1, Sleep 50, SetFlag 1 Emergency_stop False]
   \<and> snd (snd (pause_continuous_movement moving_controller [(IntArg 1, pause_answered)])) \<noteq>
       [AcquirePauseLock, SetFlag 1 Immediate_stop True, SetFlag 1 Emergency_stop True,
        SetFlag 1 Paused True, ReleasePauseLock, Sleep 100, WriteSpec 1 0 50,
        Write1ByteTxRx 1 STS_TORQUE_ENABLE 1, SetFlag 1 Emergency_stop False]"
  by code_simp

text \<open>
  C5, amended. For every id in [0, 253] with a running pattern, a successful pause
  performs exactly this sequence: under the pause lock it sets \<^verbatim>\<open>immediate_stop\<close>,
  \<^verbatim>\<open>emergency_stop\<close> and \<^verbatim>\<open>paused\<close> to true; sleeps 100 ms; sends the hold command
  (\<^verbatim>\<open>WriteSpec(id, 0, 50)\<close> for a rotation, otherwise a position read followed by
  \<^verbatim>\<open>WritePosEx(id, pos, 0, 0)\<close>, where \<open>pos\<close> is the position read or 2048 when the
  read fails); writes torque-enable; sleeps 50 ms; and finally clears only
  \<^verbatim>\<open>emergency_stop\<close>, so that \<^verbatim>\<open>immediate_stop\<close> and \<^verbatim>\<open>paused\<close> are true when it
  returns. The first part is the step for one id of any request, the second a request
  for a single id.
\<close>

theorem pause_success_sequence:
  "(0 \<le> sid \<and> sid \<le> 253 \<and> acc_patterns acc sid = Some p \<and> running p \<and>
    acc_results (pause_one acc (IntArg sid, env)) = acc_results acc @ [PauseOk sid] \<longrightarrow>
      pause_one acc (IntArg sid, env) =
        acc\<lparr>acc_patterns :=
              (acc_patterns acc)
                (sid \<mapsto> p\<lparr>immediate_stop := True, paused := True, emergency_stop := False\<rparr>),
            acc_results := acc_results acc @ [PauseOk sid],
            acc_paused_count := acc_paused_count acc + 1,
            acc_trace :=
              acc_trace acc @
              [AcquirePauseLock, SetFlag sid Immediate_stop True,
               SetFlag sid Emergency_stop True, SetFlag sid Paused True, ReleasePauseLock,
               Sleep 100] @
              (if ptype p = ''rotation'' then [WriteSpec sid 0 50]
               else [ReadPos sid, WritePosEx sid (hold_position env) 0 0]) @
              [Write1ByteTxRx sid STS_TORQUE_ENABLE 1, Sleep 50,
               SetFlag sid Emergency_stop False]\<rparr>)
   \<and> (is_connected c \<and> 0 \<le> sid \<and> sid \<le> 253 \<and> movement_patterns c sid = Some p \<and> running p \<and>
       fst (pause_continuous_movement c [(IntArg sid, env)]) = PauseReport True [PauseOk sid] 1 1
       \<longrightarrow>
      snd (snd (pause_continuous_movement c [(IntArg sid, env)])) =
        [AcquirePauseLock, SetFlag sid Immediate_stop True,
         SetFlag sid Emergency_stop True, SetFlag sid Paused True, ReleasePauseLock,
         Sleep 100] @
        (if ptype p = ''rotation'' then [WriteSpec sid 0 50]
         else [ReadPos sid, WritePosEx sid (hold_position env) 0 0]) @
        [Write1ByteTxRx sid STS_TORQUE_ENABLE 1, Sleep 50, SetFlag sid Emergency_stop False]
      \<and> movement_patterns (fst (snd (pause_continuous_movement c [(IntArg sid, env)]))) sid =
          Some (p\<lparr>immediate_stop := True, paused := True, emergency_stop := False\<rparr>))"
proof (intro conjI impI)
  assume a: "0 \<le> sid \<and> sid \<le> 253 \<and> acc_patterns acc sid = Some p \<and> running p \<and>
    acc_results (pause_one acc (IntArg sid, env)) = acc_results acc @ [PauseOk sid]"
  then have e: "pause_one acc (IntArg sid, env) = pause_running sid p env acc"
    by (simp add: pause_one_running)
  with a have r: "acc_results (pause_running sid p env acc) = acc_results acc @ [PauseOk sid]"
    by simp
  show "pause_one acc (IntArg sid, env) =
        acc\<lparr>acc_patterns :=
              (acc_patterns acc)
                (sid \<mapsto> p\<lparr>immediate_stop := True, paused := True, emergency_stop := False\<rparr>),
            acc_results := acc_results acc @ [PauseOk sid],
            acc_paused_count := acc_paused_count acc + 1,
            acc_trace :=
              acc_trace acc @
              [AcquirePauseLock, SetFlag sid Immediate_stop True,
               SetFlag sid Emergency_stop True, SetFlag sid Paused True, ReleasePauseLock,
               Sleep 100] @
              (if ptype p = ''rotation'' then [WriteSpec sid 0 50]
               else [ReadPos sid, WritePosEx sid (hold_position env) 0 0]) @
              [Write1ByteTxRx sid STS_TORQUE_ENABLE 1, Sleep 50,
               SetFlag sid Emergency_stop False]\<rparr>"
    using r unfolding e
    by (auto simp: pause_running_def Let_def pause_hold_cases assert_pause_flags_def
             split: if_splits)
next
  assume a: "is_connected c \<and> 0 \<le> sid \<and> sid \<le> 253 \<and> movement_patterns c sid = Some p \<and>
       running p \<and>
       fst (pause_continuous_movement c [(IntArg sid, env)]) = PauseReport True [PauseOk sid] 1 1"
  then show "snd (snd (pause_continuous_movement c [(IntArg sid, env)])) =
        [AcquirePauseLock, SetFlag sid Immediate_stop True,
         SetFlag sid Emergency_stop True, SetFlag sid Paused True, ReleasePauseLock,
         Sleep 100] @
        (if ptype p = ''rotation'' then [WriteSpec sid 0 50]
         else [ReadPos sid, WritePosEx sid (hold_position env) 0 0]) @
        [Write1ByteTxRx sid STS_TORQUE_ENABLE 1, Sleep 50, SetFlag sid Emergency_stop False]"
    by (auto simp: pause_continuous_movement_def pause_one_def pause_running_def Let_def
                   pause_hold_cases assert_pause_flags_def split: if_splits)
  from a show "movement_patterns (fst (snd (pause_continuous_movement c [(IntArg sid, env)]))) sid =
          Some (p\<lparr>immediate_stop := True, paused := True, emergency_stop := False\<rparr>)"
    by (auto simp: pause_continuous_movement_def pause_one_def pause_running_def Let_def
                   pause_hold_cases assert_pause_flags_def split: if_splits)
qed

theorem pause_success_sequence_witness:
  "pause_one pause_start (IntArg 2, pause_answered) =
     pause_start
       \<lparr>acc_patterns :=
          (acc_patterns pause_start)
            (2 \<mapsto> sweeping
                    \<lparr>immediate_stop := True, paused := True, emergency_stop := False\<rparr>),
        acc_results := [PauseOk 2],
        acc_paused_count := 1,
        acc_trace :=
          [AcquirePauseLock, SetFlag 2 Immediate_stop True, SetFlag 2 Emergency_stop True,
           SetFlag 2 Paused True, ReleasePauseLock, Sleep 100, ReadPos 2,
           WritePosEx 2 1234 0 0, Write1ByteTxRx 2 STS_TORQUE_ENABLE 1, Sleep 50,
           SetFlag 2 Emergency_stop False]\<rparr>
   \<and> snd (snd (pause_continuous_movement moving_controller [(IntArg 1, pause_answered)])) =
       [AcquirePauseLock, SetFlag 1 Immediate_stop True, SetFlag 1 Emergency_stop True,
        SetFlag 1 Paused True, ReleasePauseLock, Sleep 100, WriteSpec 1 0 50,
        Write1ByteTxRx 1 STS_TORQUE_ENABLE 1, Sleep 50, SetFlag 1 Emergency_stop False]"
proof -
  have h1: "(0::int) \<le> 2 \<and> (2::int) \<le> 253 \<and>
            acc_patterns pause_start 2 = Some sweeping \<and>
            running sweeping \<and>
            acc_results (pause_one pause_start (IntArg 2, pause_answered)) =
              acc_results pause_start @ [PauseOk 2]"
    by code_simp
  have h2: "is_connected moving_controller \<and> (0::int) \<le> 1 \<and> (1::int) \<le> 253 \<and>
            movement_patterns moving_controller 1 = Some rotating \<and>
            running rotating \<and>
            fst (pause_continuous_movement moving_controller [(IntArg 1, pause_answered)]) =
              PauseReport True [PauseOk 1] 1 1"
    by code_simp
  have v: "acc_results pause_start = []" "acc_paused_count pause_start = 0"
          "acc_trace pause_start = []" "ptype sweeping = ''sweep''"
          "ptype rotating = ''rotation''"
          "hold_position pause_answered = 1234"
    by code_simp+
  note t1 = pause_success_sequence
              [where sid = 2 and acc = pause_start and p = sweeping
                 and env = pause_answered]
  note t2 = pause_success_sequence
              [where sid = 1 and c = moving_controller and p = rotating
                 and env = pause_answered]
  from t1 h1 have a: "pause_one pause_start (IntArg 2, pause_answered) =
        pause_start\<lparr>acc_patterns :=
              (acc_patterns pause_start)
                (2 \<mapsto> sweeping
                        \<lparr>immediate_stop := True, paused := True, emergency_stop := False\<rparr>),
            acc_results := acc_results pause_start @ [PauseOk 2],
            acc_paused_count := acc_paused_count pause_start + 1,
            acc_trace :=
              acc_trace pause_start @
              [AcquirePauseLock, SetFlag 2 Immediate_stop True,
               SetFlag 2 Emergency_stop True, SetFlag 2 Paused True, ReleasePauseLock,
               Sleep 100] @
              (if ptype sweeping = ''rotation'' then [WriteSpec 2 0 50]
               else [ReadPos 2, WritePosEx 2 (hold_position pause_answered) 0 0]) @
              [Write1ByteTxRx 2 STS_TORQUE_ENABLE 1, Sleep 50,
               SetFlag 2 Emergency_stop False]\<rparr>"
    by blast
  from t2 h2 have b: "snd (snd (pause_continuous_movement moving_controller [(IntArg 1, pause_answered)])) =
        [AcquirePauseLock, SetFlag 1 Immediate_stop True,
         SetFlag 1 Emergency_stop True, SetFlag 1 Paused True, ReleasePauseLock,
         Sleep 100] @
        (if ptype rotating = ''rotation'' then [WriteSpec 1 0 50]
         else [ReadPos 1, WritePosEx 1 (hold_position pause_answered) 0 0]) @
        [Write1ByteTxRx 1 STS_TORQUE_ENABLE 1, Sleep 50, SetFlag 1 Emergency_stop False]"
    by blast
  from a b show ?thesis by (simp add: v)
qed




text \<open>
  C7. The result of \<^verbatim>\<open>syncWrite\<close> is success if and only if the position writer
  exists, no call raised, at least one servo was added to the batch, and the transmission
  succeeded at the first attempt or, after a failed first attempt and 50 ms, at the
  second. When no servo was added the result is an error and nothing is transmitted. When
  adding some servos fails, the writer still transmits (one frame, or two when the first
  attempt failed) for the batch of the servos that were added, and its log names exactly
  the ids that were added, once per servo and again in the line that reports a successful
  transmission.
\<close>

theorem syncWrite_partial_membership:
  "(sync_result (syncWrite w data tx) = COMM_SUCCESS \<longleftrightarrow>
      w \<and> \<not> any_add_raises data \<and> accepted_ids data \<noteq> [] \<and>
      (tx 0 = Returns COMM_SUCCESS \<or> (tx 0 \<noteq> Raises \<and> tx 1 = Returns COMM_SUCCESS)))
   \<and> (accepted_ids data = [] \<longrightarrow>
        sync_result (syncWrite w data tx) = COMM_TX_ERROR \<and>
        TxPacket \<notin> set (sync_trace (syncWrite w data tx)))
   \<and> (w \<and> \<not> any_add_raises data \<longrightarrow>
        logged_added (sync_log (syncWrite w data tx)) = accepted_ids data)
   \<and> (w \<and> \<not> any_add_raises data \<and> accepted_ids data \<noteq> [] \<longrightarrow>
        sync_trace (syncWrite w data tx) =
          ClearParam # add_calls data @
          (if tx 0 = Returns COMM_SUCCESS \<or> tx 0 = Raises then [TxPacket]
           else [TxPacket, Sleep 50, TxPacket]) \<and>
        (sync_result (syncWrite w data tx) = COMM_SUCCESS \<longrightarrow>
           LogExecuted (accepted_ids data) \<in> set (sync_log (syncWrite w data tx))))"
proof -
  obtain r tr lg where t: "sync_transmit tx (accepted_ids data) (refused_ids data) = (r, tr, lg)"
    by (cases "sync_transmit tx (accepted_ids data) (refused_ids data)") auto
  note tr = sync_transmit_result [of tx "accepted_ids data" "refused_ids data"]
  note tt = sync_transmit_trace [of tx "accepted_ids data" "refused_ids data"]
  note tl = sync_transmit_log [of tx "accepted_ids data" "refused_ids data"]
  show ?thesis
  proof (cases w)
    case False
    then show ?thesis by (simp add: syncWrite_def)
  next
    case True
    show ?thesis
    proof (cases "any_add_raises data")
      case raises: True
      from sync_add_all_raise [OF raises, of "[]" "[]" "[ClearParam]" "[]"] obtain tr' lg' where
        "sync_add_all data [] [] [ClearParam] [] = (None, [ClearParam] @ tr', [] @ lg')"
        "TxPacket \<notin> set tr'"
        by blast
      with True raises show ?thesis by (simp add: syncWrite_def)
    next
      case ok: False
      note a = sync_add_all_ok [OF ok, of "[]" "[]" "[ClearParam]" "[]"]
      show ?thesis
      proof (cases "accepted_ids data = []")
        case none: True
        with True ok a show ?thesis
          using logged_added_add_logs [of data "[LogNoneAdded]"]
          by (simp add: syncWrite_def add_calls_no_tx)
      next
        case some: False
        with True ok a t tr tt tl show ?thesis
          using logged_added_add_logs [of data lg]
          by (simp add: syncWrite_def)
      qed
    qed
  qed
qed

theorem syncWrite_partial_membership_witness:
  "sync_result (syncWrite True sync_batch sync_second_try) = COMM_SUCCESS
   \<and> logged_added (sync_log (syncWrite True sync_batch sync_second_try)) = [1, 7]
   \<and> sync_trace (syncWrite True sync_batch sync_second_try) =
       [ClearParam, SyncWritePosEx 1 1000 100 50, SyncWritePosEx 7 2000 100 50,
        SyncWritePosEx 99 3000 100 50, TxPacket, Sleep 50, TxPacket]
   \<and> LogExecuted [1, 7] \<in> set (sync_log (syncWrite True sync_batch sync_second_try))
   \<and> sync_result (syncWrite True [(99, 3000, 100, 50, Returns False)] sync_second_try) =
       COMM_TX_ERROR
   \<and> TxPacket \<notin> set (sync_trace (syncWrite True [(99, 3000, 100, 50, Returns False)]
                                  sync_second_try))"
proof -
  have h: "\<not> any_add_raises sync_batch" "accepted_ids sync_batch = [1, 7]"
          "sync_second_try 0 = Returns COMM_RX_TIMEOUT" "sync_second_try 1 = Returns COMM_SUCCESS"
          "add_calls sync_batch =
             [SyncWritePosEx 1 1000 100 50, SyncWritePosEx 7 2000 100 50,
              SyncWritePosEx 99 3000 100 50]"
          "accepted_ids [(99, 3000, 100, 50, Returns False)] = []"
    by code_simp+
  note t1 = syncWrite_partial_membership [where w = True and data = sync_batch
                                            and tx = sync_second_try]
  note t2 = syncWrite_partial_membership [where w = True
                                            and data = "[(99, 3000, 100, 50, Returns False)]"
                                            and tx = sync_second_try]
  from t1 h(1-4) have a: "sync_result (syncWrite True sync_batch sync_second_try) = COMM_SUCCESS"
    by simp
  from t1 h(1,2) have b: "logged_added (sync_log (syncWrite True sync_batch sync_second_try)) = [1, 7]"
    by simp
  from t1 h(1-5) a have c: "sync_trace (syncWrite True sync_batch sync_second_try) =
       [ClearParam, SyncWritePosEx 1 1000 100 50, SyncWritePosEx 7 2000 100 50,
        SyncWritePosEx 99 3000 100 50, TxPacket, Sleep 50, TxPacket]"
    "LogExecuted [1, 7] \<in> set (sync_log (syncWrite True sync_batch sync_second_try))"
    by simp_all
  from t2 h(6) have d:
    "sync_result (syncWrite True [(99, 3000, 100, 50, Returns False)] sync_second_try) =
       COMM_TX_ERROR"
    "TxPacket \<notin> set (sync_trace (syncWrite True [(99, 3000, 100, 50, Returns False)]
                                  sync_second_try))"
    by blast+
  from a b c d show ?thesis by simp
qed

text \<open>
  C9, as stated, fails: \<^verbatim>\<open>disconnect\<close> does not stop the movement workers. On a
  controller with two workers in their loops it closes the port and does nothing else on
  the bus; both patterns are still running, neither stopped nor paused, and both threads
  are still registered.
\<close>

theorem disconnect_leaves_workers_running:
  "(case movement_patterns (fst (snd (disconnect moving_controller))) 1 of
      Some p \<Rightarrow> running p \<and> \<not> stop_requested p \<and> \<not> paused p
    | None \<Rightarrow> False)
   \<and> (case movement_patterns (fst (snd (disconnect moving_controller))) 2 of
         Some p \<Rightarrow> running p \<and> \<not> stop_requested p \<and> \<not> paused p
       | None \<Rightarrow> False)
   \<and> continuous_movement_threads (fst (snd (disconnect moving_controller))) = {1, 2}
   \<and> snd (snd (disconnect moving_controller)) = [ClosePort]"
  by (simp add: disconnect_def moving_controller_def rotating_def sweeping_def
                worker_init_running stop_requested_def)
     code_simp

text \<open>
  C9, amended. \<^verbatim>\<open>disconnect\<close> closes the serial port when a port handler exists,
  marks the controller as not connected, empties the map of discovered servos and drops
  both group sync writers; it leaves the movement patterns and the worker threads as they
  are; it always answers success. It is idempotent: a second call answers success and
  leaves the state unchanged.
\<close>

theorem disconnect_effect:
  "fst (disconnect c)
   \<and> snd (snd (disconnect c)) = (if port_handler c then [ClosePort] else [])
   \<and> fst (snd (disconnect c)) =
       c\<lparr>is_connected := False, discovered_servos := Map.empty,
         group_sync_speed_writer := False, group_sync_position_writer := False\<rparr>
   \<and> movement_patterns (fst (snd (disconnect c))) = movement_patterns c
   \<and> continuous_movement_threads (fst (snd (disconnect c))) = continuous_movement_threads c
   \<and> fst (disconnect (fst (snd (disconnect c))))
   \<and> fst (snd (disconnect (fst (snd (disconnect c))))) = fst (snd (disconnect c))"
  by (simp add: disconnect_def)

end
